theory Spec2Isabelle
  imports Complex_Main "HOL-Library.AList" "HOL-Library.Sublist"
begin

section \<open>JavaScript values and the JSON wire format\<close>

text \<open>
  Both servers build object literals and send them with \<^verbatim>\<open>JSON.stringify\<close>.
  A value is modelled as the source has it, \<^verbatim>\<open>undefined\<close> included; an object is
  the list of its own properties in insertion order (keys distinct). A number
  is a rational or one of the three values of a double that are no number of
  JSON: \<^verbatim>\<open>JSON.parse\<close> gives \<^verbatim>\<open>Infinity\<close> for a literal such as \<^verbatim>\<open>1e999\<close>.
\<close>

datatype jsval =
    JUndefined
  | JNull
  | JBool bool
  | JNum rat
  | JInfinity
  | JNegInfinity
  | JNaN
  | JStr string
  | JArr "jsval list"
  | JObj "(string \<times> jsval) list"

text \<open>
  \<^verbatim>\<open>JSON.stringify\<close> leaves out every property whose value is \<^verbatim>\<open>undefined\<close>,
  writes \<^verbatim>\<open>null\<close> for an undefined array element and writes \<^verbatim>\<open>null\<close> for
  \<^verbatim>\<open>Infinity\<close>, \<^verbatim>\<open>-Infinity\<close> and \<^verbatim>\<open>NaN\<close>. \<open>wire v\<close> is the JSON value a
  client reads back from the text \<^verbatim>\<open>JSON.stringify(v)\<close>.
\<close>

fun wire :: "jsval \<Rightarrow> jsval"
  and wire_elems :: "jsval list \<Rightarrow> jsval list"
  and wire_props :: "(string \<times> jsval) list \<Rightarrow> (string \<times> jsval) list" where
  "wire (JArr xs) = JArr (wire_elems xs)"
| "wire (JObj kvs) = JObj (wire_props kvs)"
| "wire JInfinity = JNull"
| "wire JNegInfinity = JNull"
| "wire JNaN = JNull"
| "wire v = v"
| "wire_elems [] = []"
| "wire_elems (x # xs) = (if x = JUndefined then JNull else wire x) # wire_elems xs"
| "wire_props [] = []"
| "wire_props ((k, v) # kvs) =
     (if v = JUndefined then wire_props kvs else (k, wire v) # wire_props kvs)"

text \<open>Reading a property of an object literal: \<^verbatim>\<open>undefined\<close> when it is absent.\<close>

definition own_prop :: "(string \<times> jsval) list \<Rightarrow> string \<Rightarrow> jsval" where
  "own_prop kvs k = (case map_of kvs k of None \<Rightarrow> JUndefined | Some v \<Rightarrow> v)"

text \<open>
  \<^verbatim>\<open>v.k\<close> for a property name \<open>k\<close> that no built-in prototype defines (\<^verbatim>\<open>tool\<close>,
  \<^verbatim>\<open>params\<close>): a TypeError (\<open>None\<close>) on \<^verbatim>\<open>null\<close> and \<^verbatim>\<open>undefined\<close>,
  \<^verbatim>\<open>undefined\<close> on the other primitives and on arrays.
\<close>

fun get_prop :: "jsval \<Rightarrow> string \<Rightarrow> jsval option" where
  "get_prop JUndefined k = None"
| "get_prop JNull k = None"
| "get_prop (JObj kvs) k = Some (own_prop kvs k)"
| "get_prop v k = Some JUndefined"

fun truthy :: "jsval \<Rightarrow> bool" where
  "truthy JUndefined = False"
| "truthy JNull = False"
| "truthy (JBool b) = b"
| "truthy (JNum n) = (n \<noteq> 0)"
| "truthy JNaN = False"
| "truthy (JStr s) = (s \<noteq> [])"
| "truthy v = True"

definition js_or :: "jsval \<Rightarrow> jsval \<Rightarrow> jsval" where
  "js_or a b = (if truthy a then a else b)"

text \<open>
  What the engine supplies: \<^verbatim>\<open>JSON.parse\<close> (\<open>Inl\<close> the SyntaxError's message),
  the text of \<^verbatim>\<open>JSON.stringify(v)\<close> inside a template literal, the text of a
  finite number, the messages of the errors the engine raises (reading a property of
  \<^verbatim>\<open>null\<close>, converting an object to a primitive, a failing write), and the
  \<^verbatim>\<open>stack\<close> text of an error with a given message.
\<close>

datatype js_fault = ReadOfNullish | NotPrimitive | WriteFailed

record builtins =
  JSON_parse :: "string \<Rightarrow> string + jsval"
  JSON_text :: "jsval \<Rightarrow> string"
  Number_text :: "rat \<Rightarrow> string"
  fault_message :: "js_fault \<Rightarrow> string"
  Error_stack :: "string \<Rightarrow> string"

text \<open>
  The string conversion of a template literal \<^verbatim>\<open>`${v}`\<close> on a parsed JSON value.
  An array is joined with commas, \<^verbatim>\<open>null\<close> and \<^verbatim>\<open>undefined\<close> elements giving the
  empty string. An object without an own \<^verbatim>\<open>toString\<close> property inherits
  \<^verbatim>\<open>Object.prototype.toString\<close>; with one (never callable in parsed JSON) the
  conversion falls through \<^verbatim>\<open>valueOf\<close> and raises a TypeError (\<open>None\<close>).
\<close>

fun toStringJS :: "(rat \<Rightarrow> string) \<Rightarrow> jsval \<Rightarrow> string option"
  and joinJS :: "(rat \<Rightarrow> string) \<Rightarrow> jsval list \<Rightarrow> string option" where
  "toStringJS nt JUndefined = Some ''undefined''"
| "toStringJS nt JNull = Some ''null''"
| "toStringJS nt (JBool b) = Some (if b then ''true'' else ''false'')"
| "toStringJS nt (JNum n) = Some (nt n)"
| "toStringJS nt JInfinity = Some ''Infinity''"
| "toStringJS nt JNegInfinity = Some ''-Infinity''"
| "toStringJS nt JNaN = Some ''NaN''"
| "toStringJS nt (JStr s) = Some s"
| "toStringJS nt (JArr xs) = joinJS nt xs"
| "toStringJS nt (JObj kvs) =
     (if ''toString'' \<in> set (map fst kvs) then None else Some ''[object Object]'')"
| "joinJS nt [] = Some []"
| "joinJS nt (x # xs) =
     (case (if x = JNull \<or> x = JUndefined then Some [] else toStringJS nt x) of
        None \<Rightarrow> None
      | Some a \<Rightarrow>
          (if xs = [] then Some a
           else (case joinJS nt xs of None \<Rightarrow> None | Some b \<Rightarrow> Some (a @ '','' @ b))))"

section \<open>The HTTP response object\<close>

text \<open>
  \<^verbatim>\<open>res\<close>: the status line once \<^verbatim>\<open>writeHead\<close> has run, the headers, the chunks
  written so far (each chunk is one JSON text, kept as the value it encodes)
  and whether \<^verbatim>\<open>end\<close> was called.
\<close>

record response =
  statusCode :: "nat option"
  headers :: "(string \<times> string) list"
  written :: "jsval list"
  ended :: bool

definition cors_res :: response where
  "cors_res =
     \<lparr>statusCode = None,
      headers = [(''Access-Control-Allow-Origin'', ''*''),
                 (''Access-Control-Allow-Methods'', ''GET, POST, OPTIONS''),
                 (''Access-Control-Allow-Headers'', ''Content-Type'')],
      written = [], ended = False\<rparr>"

definition writeHead :: "nat \<Rightarrow> (string \<times> string) list \<Rightarrow> response \<Rightarrow> response" where
  "writeHead code hs res =
     res\<lparr>statusCode := Some code, headers := AList.updates (map fst hs) (map snd hs) (headers res)\<rparr>"

definition headersSent :: "response \<Rightarrow> bool" where
  "headersSent res = (statusCode res \<noteq> None)"

definition res_write :: "jsval \<Rightarrow> response \<Rightarrow> response" where
  "res_write v res = res\<lparr>written := written res @ [wire v]\<rparr>"

definition res_end :: "response \<Rightarrow> response" where
  "res_end res = res\<lparr>ended := True\<rparr>"

definition json_headers :: "(string \<times> string) list" where
  "json_headers = [(''Content-Type'', ''application/json'')]"

definition sse_headers :: "(string \<times> string) list" where
  "sse_headers =
     [(''Content-Type'', ''text/event-stream''),
      (''Cache-Control'', ''no-cache''),
      (''Connection'', ''keep-alive''),
      (''Access-Control-Allow-Origin'', ''*''),
      (''Access-Control-Allow-Headers'', ''Content-Type''),
      (''X-Accel-Buffering'', ''no'')]"

text \<open>\<^verbatim>\<open>res.writeHead(code, json); res.end(JSON.stringify(v))\<close>\<close>

definition reply_json :: "nat \<Rightarrow> jsval \<Rightarrow> response \<Rightarrow> response" where
  "reply_json code v res = res_end (res_write v (writeHead code json_headers res))"

text \<open>
  A request: its method, its url and the chunks of its body, each chunk as the
  text \<^verbatim>\<open>chunk.toString()\<close> gives for it.
\<close>

record request =
  req_method :: string
  req_url :: string
  req_chunks :: "string list"

section \<open>The simple server (simple\_mcp\_server.js)\<close>

definition PLAYWRIGHT_TOOLS :: "jsval list" where
  "PLAYWRIGHT_TOOLS =
     [JObj [(''name'', JStr ''browser_navigate''),
            (''description'', JStr ''Navigate to a URL in the browser''),
            (''inputSchema'', JObj
               [(''type'', JStr ''object''),
                (''properties'', JObj
                   [(''url'', JObj [(''type'', JStr ''string''),
                                    (''description'', JStr ''URL to navigate to'')])]),
                (''required'', JArr [JStr ''url''])])],
      JObj [(''name'', JStr ''page_screenshot''),
            (''description'', JStr ''Take a screenshot of the current page''),
            (''inputSchema'', JObj
               [(''type'', JStr ''object''),
                (''properties'', JObj
                   [(''fullPage'', JObj [(''type'', JStr ''boolean''),
                                         (''description'', JStr ''Take full page screenshot'')])])])],
      JObj [(''name'', JStr ''element_click''),
            (''description'', JStr ''Click on an element''),
            (''inputSchema'', JObj
               [(''type'', JStr ''object''),
                (''properties'', JObj
                   [(''selector'', JObj [(''type'', JStr ''string''),
                                         (''description'', JStr ''CSS selector of element to click'')])]),
                (''required'', JArr [JStr ''selector''])])],
      JObj [(''name'', JStr ''page_content''),
            (''description'', JStr ''Get the text content of the page''),
            (''inputSchema'', JObj
               [(''type'', JStr ''object''),
                (''properties'', JObj [])])]]"

text \<open>The name of a descriptor (\<^verbatim>\<open>undefined\<close> for a value that is no object).\<close>

definition tool_name :: "jsval \<Rightarrow> jsval" where
  "tool_name d = (case get_prop d ''name'' of None \<Rightarrow> JUndefined | Some n \<Rightarrow> n)"

text \<open>The Korean texts of the source, as their UTF-8 bytes.\<close>

definition msg_bad_request :: string where
  "msg_bad_request =
     [CHR 0xEC, CHR 0x9E, CHR 0x98, CHR 0xEB, CHR 0xAA, CHR 0xBB, CHR 0xEB, CHR 0x90, CHR 0x9C,
      CHR 0x20, CHR 0xEC, CHR 0x9A, CHR 0x94, CHR 0xEC, CHR 0xB2, CHR 0xAD]"

definition msg_mcp_failed :: string where
  "msg_mcp_failed =
     [CHR 0x4D, CHR 0x43, CHR 0x50, CHR 0x20, CHR 0xEC, CHR 0x97, CHR 0xB0, CHR 0xEA, CHR 0xB2,
      CHR 0xB0, CHR 0x20, CHR 0xEC, CHR 0x8B, CHR 0xA4, CHR 0xED, CHR 0x8C, CHR 0xA8]"

definition msg_module_missing :: string where
  "msg_module_missing =
     [CHR 0x50, CHR 0x6C, CHR 0x61, CHR 0x79, CHR 0x77, CHR 0x72, CHR 0x69, CHR 0x67, CHR 0x68,
      CHR 0x74, CHR 0x20, CHR 0x4D, CHR 0x43, CHR 0x50, CHR 0x20, CHR 0xEB, CHR 0xAA, CHR 0xA8,
      CHR 0xEB, CHR 0x93, CHR 0x88, CHR 0xEC, CHR 0x9D, CHR 0xB4, CHR 0x20, CHR 0xEB, CHR 0xA1,
      CHR 0x9C, CHR 0xEB, CHR 0x93, CHR 0x9C, CHR 0xEB, CHR 0x90, CHR 0x98, CHR 0xEC, CHR 0xA7,
      CHR 0x80, CHR 0x20, CHR 0xEC, CHR 0x95, CHR 0x8A, CHR 0xEC, CHR 0x95, CHR 0x98, CHR 0xEC,
      CHR 0x8A, CHR 0xB5, CHR 0xEB, CHR 0x8B, CHR 0x88, CHR 0xEB, CHR 0x8B, CHR 0xA4]"

definition simple_description :: string where
  "simple_description =
     [CHR 0x47, CHR 0x6F, CHR 0x6F, CHR 0x67, CHR 0x6C, CHR 0x65, CHR 0x20, CHR 0x41, CHR 0x44,
      CHR 0x4B, CHR 0x20, CHR 0xED, CHR 0x98, CHR 0xB8, CHR 0xED, CHR 0x99, CHR 0x98, CHR 0x20,
      CHR 0xEB, CHR 0x8B, CHR 0xA8, CHR 0xEC, CHR 0x88, CHR 0x9C, CHR 0x20, CHR 0x4D, CHR 0x43,
      CHR 0x50, CHR 0x20, CHR 0xEC, CHR 0x84, CHR 0x9C, CHR 0xEB, CHR 0xB2, CHR 0x84]"

definition simple_health :: "string \<Rightarrow> jsval" where
  "simple_health now =
     JObj [(''status'', JStr ''healthy''),
           (''timestamp'', JStr now),
           (''service'', JStr ''simple-mcp-server''),
           (''tools'', JNum (of_nat (length PLAYWRIGHT_TOOLS)))]"

definition simple_tools :: jsval where
  "simple_tools = JObj [(''tools'', JArr PLAYWRIGHT_TOOLS)]"

definition simple_mcp_simple :: jsval where
  "simple_mcp_simple =
     JObj [(''status'', JStr ''connected''),
           (''protocol'', JStr ''mcp-simple''),
           (''tools'', JArr PLAYWRIGHT_TOOLS),
           (''capabilities'', JArr [JStr ''tools'']),
           (''server'', JObj [(''name'', JStr ''simple-playwright-mcp''),
                              (''version'', JStr ''1.0.0'')])]"

definition simple_info :: jsval where
  "simple_info =
     JObj [(''name'', JStr ''Simple MCP HTTP Server''),
           (''version'', JStr ''1.0.0''),
           (''description'', JStr simple_description),
           (''endpoints'', JObj [(''health'', JStr ''/health''),
                                 (''tools'', JStr ''/tools''),
                                 (''mcp'', JStr ''/mcp''),
                                 (''mcp-simple'', JStr ''/mcp-simple''),
                                 (''execute'', JStr ''/execute''),
                                 (''info'', JStr ''/info'')]),
           (''tools'', JNum (of_nat (length PLAYWRIGHT_TOOLS)))]"

definition not_found :: jsval where
  "not_found = JObj [(''error'', JStr ''Not found'')]"

definition initMessage :: jsval where
  "initMessage =
     JObj [(''jsonrpc'', JStr ''2.0''),
           (''method'', JStr ''notifications/initialized''),
           (''params'', JObj [])]"

definition serverInfo :: jsval where
  "serverInfo =
     JObj [(''jsonrpc'', JStr ''2.0''),
           (''method'', JStr ''server/info''),
           (''params'', JObj [(''name'', JStr ''simple-playwright-mcp''),
                              (''version'', JStr ''1.0.0''),
                              (''capabilities'', JArr [JStr ''tools'']),
                              (''tools'', JArr PLAYWRIGHT_TOOLS)])]"

definition toolsList :: jsval where
  "toolsList =
     JObj [(''jsonrpc'', JStr ''2.0''),
           (''method'', JStr ''tools/list''),
           (''params'', JObj [(''tools'', JArr PLAYWRIGHT_TOOLS)])]"

definition heartbeat :: "string \<Rightarrow> jsval" where
  "heartbeat now =
     JObj [(''jsonrpc'', JStr ''2.0''),
           (''method'', JStr ''heartbeat''),
           (''params'', JObj [(''timestamp'', JStr now)])]"

text \<open>
  One streaming connection of the simple server: its response object and the
  timer of \<^verbatim>\<open>setInterval\<close> (\<open>Some\<close> the period in milliseconds until
  \<^verbatim>\<open>clearInterval\<close>). The handler and the timer's callback guard their writes with
  \<^verbatim>\<open>try\<close>/\<^verbatim>\<open>catch\<close>, so whether the writes of one callback succeed or the
  first of them throws is an input (\<open>ok\<close>).
\<close>

record sconn =
  sres :: response
  heartbeatInterval :: "nat option"

text \<open>
  The \<^verbatim>\<open>/mcp\<close> handler. When a write throws, the \<^verbatim>\<open>catch\<close> finds the headers
  sent and does nothing more: no timer is started and no listener installed.
  In \<open>simple_mcp\<close> the three writes succeed (\<open>ok\<close>) or the first one throws; in
  \<open>simple_mcp_cut\<close> the first \<open>n\<close> writes succeed and the next one throws.
\<close>

definition simple_mcp :: "builtins \<Rightarrow> bool \<Rightarrow> response \<Rightarrow> sconn" where
  "simple_mcp B ok res =
     (let res1 = writeHead 200 sse_headers res in
      if ok
      then \<lparr>sres = res_write toolsList (res_write serverInfo (res_write initMessage res1)),
            heartbeatInterval = Some 30000\<rparr>
      else \<lparr>sres = (if headersSent res1 then res1
                    else reply_json 500 (JObj [(''error'', JStr msg_mcp_failed),
                                               (''details'', JStr (fault_message B WriteFailed))]) res1),
            heartbeatInterval = None\<rparr>)"

definition simple_mcp_cut :: "nat \<Rightarrow> response \<Rightarrow> sconn" where
  "simple_mcp_cut n res =
     \<lparr>sres = fold res_write (take n [initMessage, serverInfo, toolsList])
               (writeHead 200 sse_headers res),
      heartbeatInterval = None\<rparr>"

text \<open>The callback of the interval timer; it runs only while the timer is live.\<close>

definition heartbeat_tick :: "string \<Rightarrow> bool \<Rightarrow> sconn \<Rightarrow> sconn" where
  "heartbeat_tick now ok c =
     (if heartbeatInterval c = None then c
      else if ok then c\<lparr>sres := res_write (heartbeat now) (sres c)\<rparr>
      else c\<lparr>heartbeatInterval := None\<rparr>)"

definition clear_heartbeat :: "sconn \<Rightarrow> sconn" where
  "clear_heartbeat c = c\<lparr>heartbeatInterval := None\<rparr>"

text \<open>
  The \<^verbatim>\<open>end\<close> listener of \<^verbatim>\<open>POST /execute\<close>, on the concatenated chunks. Every
  exception of the \<^verbatim>\<open>try\<close> block ends in the same \<^verbatim>\<open>catch\<close>: status 400.
\<close>

definition bad_request :: "string \<Rightarrow> response \<Rightarrow> response" where
  "bad_request details res =
     reply_json 400 (JObj [(''error'', JStr msg_bad_request), (''details'', JStr details)]) res"

definition execute :: "builtins \<Rightarrow> string \<Rightarrow> string \<Rightarrow> response \<Rightarrow> response" where
  "execute B now body res =
     (case JSON_parse B body of
        Inl msg \<Rightarrow> bad_request msg res
      | Inr request \<Rightarrow>
          (case get_prop request ''tool'' of
             None \<Rightarrow> bad_request (fault_message B ReadOfNullish) res
           | Some tool \<Rightarrow>
               (case toStringJS (Number_text B) tool of
                  None \<Rightarrow> bad_request (fault_message B NotPrimitive) res
                | Some name \<Rightarrow>
                    (case get_prop request ''params'' of
                       None \<Rightarrow> bad_request (fault_message B ReadOfNullish) res
                     | Some params \<Rightarrow>
                         reply_json 200
                           (JObj [(''tool'', tool),
                                  (''status'', JStr ''success''),
                                  (''result'', JStr (''Executed '' @ name @
                                      '' with params: '' @ JSON_text B params)),
                                  (''timestamp'', JStr now)]) res))))"

definition simple_request ::
  "builtins \<Rightarrow> string \<Rightarrow> bool \<Rightarrow> request \<Rightarrow> sconn list \<Rightarrow> sconn list \<times> response" where
  "simple_request B now ok req cs =
     (if req_method req = ''OPTIONS'' then (cs, res_end (writeHead 200 [] cors_res))
      else if req_url req = ''/health'' then (cs, reply_json 200 (simple_health now) cors_res)
      else if req_url req = ''/tools'' then (cs, reply_json 200 simple_tools cors_res)
      else if req_url req = ''/mcp-simple'' then (cs, reply_json 200 simple_mcp_simple cors_res)
      else if req_url req = ''/mcp'' then
        (let c = simple_mcp B ok cors_res in (cs @ [c], sres c))
      else if req_method req = ''POST'' \<and> req_url req = ''/execute'' then
        (cs, execute B now (concat (req_chunks req)) cors_res)
      else if req_url req = ''/'' \<or> req_url req = ''/info'' then
        (cs, reply_json 200 simple_info cors_res)
      else (cs, reply_json 404 not_found cors_res))"

text \<open>
  The events of the simple server's event loop: a request (with the clock
  reading and the outcome of its writes), a tick of connection \<open>i\<close>'s timer,
  the \<^verbatim>\<open>close\<close> and \<^verbatim>\<open>error\<close> events of connection \<open>i\<close>'s request, and a request
  during which the write after the \<open>n\<close>-th throws. Only the handler of \<^verbatim>\<open>/mcp\<close>
  writes more than once, and it writes three times: elsewhere, and for \<open>n\<close> of
  three or more, the last event is a request whose writes succeed.
\<close>

datatype sevent =
    SRequest request string bool
  | STick nat string bool
  | SClose nat
  | SError nat
  | SRequestCut request string nat

fun simple_step :: "builtins \<Rightarrow> sevent \<Rightarrow> sconn list \<Rightarrow> sconn list" where
  "simple_step B (SRequest req now ok) cs = fst (simple_request B now ok req cs)"
| "simple_step B (STick i now ok) cs =
     (if i < length cs then cs[i := heartbeat_tick now ok (cs ! i)] else cs)"
| "simple_step B (SClose i) cs =
     (if i < length cs then cs[i := clear_heartbeat (cs ! i)] else cs)"
| "simple_step B (SError i) cs =
     (if i < length cs then cs[i := clear_heartbeat (cs ! i)] else cs)"
| "simple_step B (SRequestCut req now n) cs =
     (if req_method req \<noteq> ''OPTIONS'' \<and> req_url req = ''/mcp'' \<and> n < 3
      then cs @ [simple_mcp_cut n cors_res]
      else fst (simple_request B now True req cs))"

definition simple_run :: "builtins \<Rightarrow> sevent list \<Rightarrow> sconn list \<Rightarrow> sconn list" where
  "simple_run B evs cs = fold (simple_step B) evs cs"

section \<open>The full server (playwright\_mcp\_server.js)\<close>

text \<open>
  What the module imports and the environment variables give, fixed at startup.
\<close>

record config =
  createConnection_loaded :: bool
  SSEServerTransport_loaded :: bool
  PLAYWRIGHT_HEADLESS :: "string option"
  PLAYWRIGHT_BROWSER :: "string option"

definition playwrightConfig :: "config \<Rightarrow> jsval" where
  "playwrightConfig cfg =
     JObj [(''browser'', JObj [(''launchOptions'', JObj
              [(''headless'', JBool (PLAYWRIGHT_HEADLESS cfg \<noteq> Some ''false'')),
               (''channel'', js_or (case PLAYWRIGHT_BROWSER cfg of
                                      None \<Rightarrow> JUndefined | Some b \<Rightarrow> JStr b)
                                   (JStr ''chrome''))])]),
           (''capabilities'', JArr [JStr ''tabs'', JStr ''pdf'', JStr ''vision'']),
           (''outputDir'', JStr ''./playwright-outputs'')]"

text \<open>
  The value \<^verbatim>\<open>createConnection\<close> resolves to, as far as the handler looks into it:
  \<^verbatim>\<open>null\<close>/\<^verbatim>\<open>undefined\<close>, or an object whose \<^verbatim>\<open>server\<close> property is falsy
  (\<open>None\<close>) or an SDK server with its \<^verbatim>\<open>_toolHandlers\<close>: falsy, a Map with the
  given keys, or a value on which \<^verbatim>\<open>Array.from(tools.keys())\<close> raises the engine's
  TypeError.
\<close>

datatype tool_handlers = NoHandlers | Handlers "string list" | BadHandlers

datatype mcp_server = Nullish | Connection "tool_handlers option"

text \<open>
  The JSON-RPC helpers. \<^verbatim>\<open>sendMCPError\<close> is only ever called with an object
  literal, whose properties are its third argument here. A write of the full
  server appends to the response: \<^verbatim>\<open>res.write\<close> on a string reports a broken
  transport through events, and the handler has no branch for a throwing write.
  What the SDK transport writes once \<^verbatim>\<open>connect\<close> has it is not repository code and
  not part of the streams below.
\<close>

definition sendMCPNotification :: "response \<Rightarrow> string \<Rightarrow> jsval \<Rightarrow> response" where
  "sendMCPNotification res method params =
     res_write (JObj [(''jsonrpc'', JStr ''2.0''),
                      (''method'', JStr method),
                      (''params'', if params = JUndefined then JObj [] else params)]) res"

definition sendMCPResponse :: "response \<Rightarrow> jsval \<Rightarrow> jsval \<Rightarrow> response" where
  "sendMCPResponse res rid result =
     res_write (JObj [(''jsonrpc'', JStr ''2.0''),
                      (''id'', rid),
                      (''result'', result)]) res"

definition sendMCPError :: "response \<Rightarrow> jsval \<Rightarrow> (string \<times> jsval) list \<Rightarrow> response" where
  "sendMCPError res rid error =
     res_write (JObj [(''jsonrpc'', JStr ''2.0''),
                      (''id'', rid),
                      (''error'', JObj
                         [(''code'', JNum (- 32603)),
                          (''message'', js_or (own_prop error ''message'') (JStr ''Internal error'')),
                          (''data'', js_or (own_prop error ''data'') JNull)])]) res"

definition setupSSEHeaders :: "response \<Rightarrow> response" where
  "setupSSEHeaders res = writeHead 200 sse_headers res"

text \<open>
  An entry of the \<^verbatim>\<open>connectedClients\<close> Map; its \<^verbatim>\<open>res\<close> is the response object of
  the connection with the given index. The Map is the list of its entries in
  insertion order, \<^verbatim>\<open>set\<close> is \<open>AList.update\<close>, \<^verbatim>\<open>delete\<close> is \<open>AList.delete\<close> and
  \<^verbatim>\<open>size\<close> is the length.
\<close>

record client_entry =
  entry_res :: nat
  entry_mcpServer :: mcp_server
  connected :: bool
  timestamp :: string

text \<open>
  The \<^verbatim>\<open>/mcp\<close> handler is an async function: it suspends at
  \<^verbatim>\<open>await createMCPServer()\<close> and at \<^verbatim>\<open>await mcpServer.server.connect(transport)\<close>,
  and other events run in between. A connection records where its handler
  stands, the handler's \<^verbatim>\<open>clientId\<close> and \<^verbatim>\<open>mcpServer\<close>, whether the \<^verbatim>\<open>close\<close>
  listener of the request is installed, and whether the request has already
  emitted \<^verbatim>\<open>close\<close> (it does so once). The state of the server also records
  whether the process has ended on an unhandled rejection (\<open>crashed\<close>): the
  module installs no handler for one, and Node 20, which the Dockerfile
  installs, then ends the process.
\<close>

datatype phase = AwaitFactory | AwaitConnect | Settled

record fconn =
  clientId :: string
  fres :: response
  phase :: phase
  mcpServer :: "mcp_server option"
  closeListener :: bool
  closed :: bool

record fstate =
  connectedClients :: "(string \<times> client_entry) list"
  conns :: "fconn list"
  crashed :: bool

definition full_init :: fstate where
  "full_init = \<lparr>connectedClients = [], conns = [], crashed = False\<rparr>"

definition full_health :: "string \<Rightarrow> fstate \<Rightarrow> jsval" where
  "full_health now s =
     JObj [(''status'', JStr ''healthy''),
           (''timestamp'', JStr now),
           (''service'', JStr ''playwright-mcp-server''),
           (''clients'', JNum (of_nat (length (connectedClients s))))]"

definition full_info :: "config \<Rightarrow> rat \<Rightarrow> fstate \<Rightarrow> jsval" where
  "full_info cfg uptime s =
     JObj [(''name'', JStr ''Enhanced Playwright MCP HTTP Server''),
           (''version'', JStr ''2.0.0''),
           (''endpoints'', JObj [(''health'', JStr ''/health''),
                                 (''mcp'', JStr ''/mcp''),
                                 (''info'', JStr ''/info'')]),
           (''config'', playwrightConfig cfg),
           (''stats'', JObj [(''connectedClients'', JNum (of_nat (length (connectedClients s)))),
                             (''uptime'', JNum uptime)])]"

text \<open>
  The \<^verbatim>\<open>catch\<close> block of the \<^verbatim>\<open>/mcp\<close> handler in the handler of connection \<open>i\<close>,
  for a caught value other than \<^verbatim>\<open>null\<close> and \<^verbatim>\<open>undefined\<close> whose \<^verbatim>\<open>message\<close> and
  \<^verbatim>\<open>stack\<close> read as given: what it writes on the connection's response, then
  the removal from the Map.
\<close>

definition fail_conn :: "jsval \<Rightarrow> jsval \<Rightarrow> fconn \<Rightarrow> fconn" where
  "fail_conn msg stack c =
     c\<lparr>fres := (if \<not> headersSent (fres c)
                 then reply_json 500 (JObj [(''error'', JStr msg_mcp_failed),
                                            (''details'', msg),
                                            (''stack'', stack)]) (fres c)
                 else sendMCPError (fres c) JNull
                        [(''message'', msg), (''data'', JObj [(''stack'', stack)])]),
       phase := Settled\<rparr>"

definition mcp_failed :: "jsval \<Rightarrow> jsval \<Rightarrow> nat \<Rightarrow> fstate \<Rightarrow> fstate" where
  "mcp_failed msg stack i s =
     (let c = conns s ! i in
      s\<lparr>connectedClients :=
           (if clientId c \<in> set (map fst (connectedClients s))
            then AList.delete (clientId c) (connectedClients s)
            else connectedClients s),
        conns := (conns s)[i := fail_conn msg stack c]\<rparr>)"

text \<open>
  The \<^verbatim>\<open>catch\<close> block on the values \<^verbatim>\<open>null\<close> and \<^verbatim>\<open>undefined\<close>: its second
  statement reads \<^verbatim>\<open>error.stack\<close> and throws. Nothing is written, the Map is left
  as it is, the handler's promise rejects and the process ends.
\<close>

definition mcp_unhandled :: "fstate \<Rightarrow> fstate" where
  "mcp_unhandled s = s\<lparr>crashed := True\<rparr>"

text \<open>The end of the \<^verbatim>\<open>try\<close> block: \<^verbatim>\<open>req.on('close', ...)\<close>.\<close>

definition install_close :: "fconn \<Rightarrow> fconn" where
  "install_close c = c\<lparr>closeListener := True, phase := Settled\<rparr>"

text \<open>
  The handler of connection \<open>i\<close> resumes with the value of
  \<^verbatim>\<open>createMCPServer()\<close>: it registers the client, sends the initialized
  notification and, with the SDK transport loaded and a truthy
  \<^verbatim>\<open>mcpServer.server\<close>, starts \<^verbatim>\<open>connect\<close>; otherwise it sends an empty list.
  \<^verbatim>\<open>SSEServerTransport && mcpServer.server\<close> reads \<^verbatim>\<open>mcpServer.server\<close> only when
  the transport is loaded, and that read throws on \<^verbatim>\<open>null\<close>/\<^verbatim>\<open>undefined\<close>.
\<close>

definition announce :: "mcp_server \<Rightarrow> fconn \<Rightarrow> fconn" where
  "announce m c =
     c\<lparr>fres := sendMCPNotification (fres c) ''notifications/initialized'' (JObj []),
       mcpServer := Some m\<rparr>"

definition send_empty_tools :: "fconn \<Rightarrow> fconn" where
  "send_empty_tools c =
     install_close (c\<lparr>fres := sendMCPNotification (fres c) ''tools/list''
                                (JObj [(''tools'', JArr [])])\<rparr>)"

definition mcp_resumed :: "builtins \<Rightarrow> config \<Rightarrow> nat \<Rightarrow> mcp_server \<Rightarrow> string \<Rightarrow> fstate \<Rightarrow> fstate" where
  "mcp_resumed B cfg i m now s =
     (let c = conns s ! i;
          s1 = s\<lparr>connectedClients :=
                   AList.update (clientId c)
                     \<lparr>entry_res = i, entry_mcpServer = m, connected = True, timestamp = now\<rparr>
                     (connectedClients s),
                 conns := (conns s)[i := announce m c]\<rparr>;
          fallback = s1\<lparr>conns := (conns s)[i := send_empty_tools (announce m c)]\<rparr>
      in if SSEServerTransport_loaded cfg then
           (case m of
              Nullish \<Rightarrow>
                mcp_failed (JStr (fault_message B ReadOfNullish))
                  (JStr (Error_stack B (fault_message B ReadOfNullish))) i s1
            | Connection None \<Rightarrow> fallback
            | Connection (Some th) \<Rightarrow>
                s1\<lparr>conns := (conns s)[i := (announce m c)\<lparr>phase := AwaitConnect\<rparr>]\<rparr>)
         else fallback)"

text \<open>
  The inner \<^verbatim>\<open>catch\<close>, entered when \<^verbatim>\<open>connect\<close> rejects (or the transport's
  constructor throws) with a value other than \<^verbatim>\<open>null\<close> and \<^verbatim>\<open>undefined\<close>: the names
  of the tool handlers are sent, or an empty list when reading them raises the
  engine's TypeError.
\<close>

definition tool_stub :: "string \<Rightarrow> jsval" where
  "tool_stub name =
     JObj [(''name'', JStr name), (''description'', JStr (''Playwright tool: '' @ name))]"

definition fallback_tools :: "mcp_server option \<Rightarrow> jsval" where
  "fallback_tools m =
     (case m of
        Some (Connection (Some (Handlers names))) \<Rightarrow> JArr (map tool_stub names)
      | _ \<Rightarrow> JArr [])"

definition connect_failed :: "fconn \<Rightarrow> fconn" where
  "connect_failed c =
     install_close (c\<lparr>fres := sendMCPNotification (fres c) ''tools/list''
                                (JObj [(''tools'', fallback_tools (mcpServer c))])\<rparr>)"

text \<open>
  The inner \<^verbatim>\<open>catch\<close> on the values \<^verbatim>\<open>null\<close> and \<^verbatim>\<open>undefined\<close>: its first statement
  reads \<^verbatim>\<open>error.message\<close> and throws a TypeError, which the outer \<^verbatim>\<open>catch\<close>
  handles.
\<close>

definition connect_failed_nullish :: "builtins \<Rightarrow> nat \<Rightarrow> fstate \<Rightarrow> fstate" where
  "connect_failed_nullish B i s =
     mcp_failed (JStr (fault_message B ReadOfNullish))
       (JStr (Error_stack B (fault_message B ReadOfNullish))) i s"

text \<open>The \<^verbatim>\<open>close\<close> listener: \<^verbatim>\<open>connectedClients.delete(clientId)\<close>.\<close>

definition on_close :: "nat \<Rightarrow> fstate \<Rightarrow> fstate" where
  "on_close i s =
     (let c = conns s ! i in
      if closed c then s
      else s\<lparr>connectedClients := (if closeListener c
                                   then AList.delete (clientId c) (connectedClients s)
                                   else connectedClients s),
             conns := (conns s)[i := c\<lparr>closed := True\<rparr>]\<rparr>)"

text \<open>
  The request listener, up to its first suspension. \<open>now\<close>, \<open>uuid\<close> and
  \<open>uptime\<close> are the readings of \<^verbatim>\<open>new Date()\<close>, \<^verbatim>\<open>randomUUID()\<close> and
  \<^verbatim>\<open>process.uptime()\<close>. The body of the request is never read.
\<close>

definition new_conn :: "string \<Rightarrow> fconn" where
  "new_conn uuid =
     \<lparr>clientId = uuid, fres = setupSSEHeaders cors_res, phase = AwaitFactory,
      mcpServer = None, closeListener = False, closed = False\<rparr>"

definition full_request ::
  "builtins \<Rightarrow> config \<Rightarrow> request \<Rightarrow> string \<Rightarrow> string \<Rightarrow> rat \<Rightarrow> fstate \<Rightarrow> fstate \<times> response" where
  "full_request B cfg req now uuid uptime s =
     (if req_method req = ''OPTIONS'' then (s, res_end (writeHead 200 [] cors_res))
      else if req_url req = ''/health'' then (s, reply_json 200 (full_health now s) cors_res)
      else if req_url req = ''/mcp'' then
        (let i = length (conns s);
             s0 = s\<lparr>conns := conns s @ [new_conn uuid]\<rparr>;
             s1 = (if \<not> createConnection_loaded cfg
                   then mcp_failed (JStr msg_module_missing)
                          (JStr (Error_stack B msg_module_missing)) i s0
                   else s0)
         in (s1, fres (conns s1 ! i)))
      else if req_url req = ''/'' \<or> req_url req = ''/info'' then
        (s, reply_json 200 (full_info cfg uptime s) cors_res)
      else (s, reply_json 404 not_found cors_res))"

text \<open>
  The events of the full server's event loop. The settlement of a promise is
  taken only by the handler that awaits it. A rejection comes with the value
  the handler catches: \<open>FactoryRejected i msg stack\<close> is a rejection with a value
  other than \<^verbatim>\<open>null\<close> and \<^verbatim>\<open>undefined\<close> whose \<^verbatim>\<open>message\<close> and \<^verbatim>\<open>stack\<close> read
  \<open>msg\<close> and \<open>stack\<close> (\<^verbatim>\<open>undefined\<close> for a thrown primitive),
  \<open>FactoryRejectedNullish i\<close> one with \<^verbatim>\<open>null\<close> or \<^verbatim>\<open>undefined\<close>; likewise for
  \<^verbatim>\<open>connect\<close>. Once the process has ended no event is taken.
\<close>

datatype fevent =
    FRequest request string string rat
  | FactoryResolved nat mcp_server string
  | FactoryRejected nat jsval jsval
  | FactoryRejectedNullish nat
  | ConnectResolved nat
  | ConnectRejected nat
  | ConnectRejectedNullish nat
  | FClose nat

fun full_step :: "builtins \<Rightarrow> config \<Rightarrow> fevent \<Rightarrow> fstate \<Rightarrow> fstate" where
  "full_step B cfg (FRequest req now uuid uptime) s =
     (if crashed s then s else fst (full_request B cfg req now uuid uptime s))"
| "full_step B cfg (FactoryResolved i m now) s =
     (if \<not> crashed s \<and> i < length (conns s) \<and> phase (conns s ! i) = AwaitFactory
      then mcp_resumed B cfg i m now s else s)"
| "full_step B cfg (FactoryRejected i msg stack) s =
     (if \<not> crashed s \<and> i < length (conns s) \<and> phase (conns s ! i) = AwaitFactory
      then mcp_failed msg stack i s else s)"
| "full_step B cfg (FactoryRejectedNullish i) s =
     (if \<not> crashed s \<and> i < length (conns s) \<and> phase (conns s ! i) = AwaitFactory
      then mcp_unhandled s else s)"
| "full_step B cfg (ConnectResolved i) s =
     (if \<not> crashed s \<and> i < length (conns s) \<and> phase (conns s ! i) = AwaitConnect
      then s\<lparr>conns := (conns s)[i := install_close (conns s ! i)]\<rparr> else s)"
| "full_step B cfg (ConnectRejected i) s =
     (if \<not> crashed s \<and> i < length (conns s) \<and> phase (conns s ! i) = AwaitConnect
      then s\<lparr>conns := (conns s)[i := connect_failed (conns s ! i)]\<rparr> else s)"
| "full_step B cfg (ConnectRejectedNullish i) s =
     (if \<not> crashed s \<and> i < length (conns s) \<and> phase (conns s ! i) = AwaitConnect
      then connect_failed_nullish B i s else s)"
| "full_step B cfg (FClose i) s =
     (if \<not> crashed s \<and> i < length (conns s) then on_close i s else s)"

definition full_run :: "builtins \<Rightarrow> config \<Rightarrow> fevent list \<Rightarrow> fstate \<Rightarrow> fstate" where
  "full_run B cfg evs s = fold (full_step B cfg) evs s"

section \<open>Frames\<close>

text \<open>
  The three kinds of protocol message, told apart on the wire by their keys:
  a notification has a method and no id, a response an id and no method.
\<close>

definition has_field :: "jsval \<Rightarrow> string \<Rightarrow> bool" where
  "has_field f k = (case f of JObj kvs \<Rightarrow> k \<in> set (map fst kvs) | _ \<Rightarrow> False)"

definition field :: "jsval \<Rightarrow> string \<Rightarrow> jsval" where
  "field f k = (case f of JObj kvs \<Rightarrow> own_prop kvs k | _ \<Rightarrow> JUndefined)"

definition is_notification :: "jsval \<Rightarrow> bool" where
  "is_notification f = (has_field f ''method'' \<and> \<not> has_field f ''id'')"

definition is_response :: "jsval \<Rightarrow> bool" where
  "is_response f = (has_field f ''id'' \<and> \<not> has_field f ''method'')"

definition is_method :: "string \<Rightarrow> jsval \<Rightarrow> bool" where
  "is_method m f = (is_notification f \<and> field f ''method'' = JStr m)"

text \<open>The frames of the handshake, as a client reads them.\<close>

definition initialized_frame :: jsval where
  "initialized_frame =
     JObj [(''jsonrpc'', JStr ''2.0''), (''method'', JStr ''notifications/initialized''),
           (''params'', JObj [])]"

definition tools_frame :: "jsval \<Rightarrow> jsval" where
  "tools_frame ts =
     JObj [(''jsonrpc'', JStr ''2.0''), (''method'', JStr ''tools/list''),
           (''params'', JObj [(''tools'', ts)])]"

definition server_info_frame :: "jsval \<Rightarrow> jsval" where
  "server_info_frame ts =
     JObj [(''jsonrpc'', JStr ''2.0''), (''method'', JStr ''server/info''),
           (''params'', JObj [(''name'', JStr ''simple-playwright-mcp''),
                              (''version'', JStr ''1.0.0''),
                              (''capabilities'', JArr [JStr ''tools'']),
                              (''tools'', ts)])]"

section \<open>Predicates on streams and states\<close>

text \<open>
  An error response as the \<^verbatim>\<open>catch\<close> block sends it: the id is \<^verbatim>\<open>null\<close> and the
  frame carries \<^verbatim>\<open>error\<close> and no \<^verbatim>\<open>result\<close>.
\<close>

definition is_null_error :: "jsval \<Rightarrow> bool" where
  "is_null_error f =
     (is_response f \<and> field f ''id'' = JNull \<and> has_field f ''error'' \<and> \<not> has_field f ''result'')"

definition full_frame :: "jsval \<Rightarrow> bool" where
  "full_frame f =
     (is_method ''notifications/initialized'' f \<or> is_method ''tools/list'' f \<or> is_null_error f)"

text \<open>
  No \<^verbatim>\<open>tools/list\<close> notification stands before the first \<^verbatim>\<open>initialized\<close>
  notification of a stream.
\<close>

definition init_first :: "jsval list \<Rightarrow> bool" where
  "init_first fs =
     (\<forall>f \<in> set (takeWhile (\<lambda>f. \<not> is_method ''notifications/initialized'' f) fs).
        \<not> is_method ''tools/list'' f)"

text \<open>
  What holds of every connection of the full server: the head is written and
  the response never ended, the frames are of the three kinds above and in
  order, a handler that awaits the factory has written nothing and holds no
  session, and one that awaits \<^verbatim>\<open>connect\<close> has sent the initialized notification.
\<close>

definition fconn_ok :: "fconn \<Rightarrow> bool" where
  "fconn_ok c =
     (headersSent (fres c) \<and> \<not> ended (fres c) \<and>
      list_all full_frame (written (fres c)) \<and>
      init_first (written (fres c)) \<and>
      (phase c = AwaitFactory \<longrightarrow>
         written (fres c) = [] \<and> mcpServer c = None \<and> \<not> closeListener c) \<and>
      (phase c = AwaitConnect \<longrightarrow>
         (\<exists>f \<in> set (written (fres c)). is_method ''notifications/initialized'' f) \<and>
         \<not> closeListener c))"

definition conns_ok :: "fstate \<Rightarrow> bool" where
  "conns_ok s = (\<forall>c \<in> set (conns s). fconn_ok c)"

text \<open>
  The Map has one entry per key, and every entry belongs to a connection that
  carries the entry's key and holds the entry's session.
\<close>

definition registry_ok :: "fstate \<Rightarrow> bool" where
  "registry_ok s =
     (distinct (map fst (connectedClients s)) \<and>
      (\<forall>(k, e) \<in> set (connectedClients s).
          entry_res e < length (conns s) \<and>
          clientId (conns s ! entry_res e) = k \<and>
          mcpServer (conns s ! entry_res e) = Some (entry_mcpServer e)))"

definition full_inv :: "fstate \<Rightarrow> bool" where
  "full_inv s = (conns_ok s \<and> registry_ok s)"

text \<open>
  What holds of every connection of the simple server: no timer and nothing
  written, or the first or the first two frames of the handshake (a write of
  the handshake failed), or the three handshake frames followed by heartbeats
  only, with the timer cleared or at its period of 30 seconds.
\<close>

definition sconn_ok :: "sconn \<Rightarrow> bool" where
  "sconn_ok c =
     (headersSent (sres c) \<and> \<not> ended (sres c) \<and>
      ((written (sres c) = [] \<or> written (sres c) = [initMessage] \<or>
        written (sres c) = [initMessage, serverInfo]) \<and> heartbeatInterval c = None \<or>
       (\<exists>hs. written (sres c) = [initMessage, serverInfo, toolsList] @ hs \<and>
             list_all (is_method ''heartbeat'') hs \<and>
             (heartbeatInterval c = None \<or> heartbeatInterval c = Some 30000))))"

text \<open>
  Streams only grow at their end: the connections of before are still there,
  each with its earlier frames as a prefix of its frames.
\<close>

definition grows :: "fconn list \<Rightarrow> fconn list \<Rightarrow> bool" where
  "grows cs cs' =
     (length cs \<le> length cs' \<and>
      (\<forall>i < length cs. prefix (written (fres (cs ! i))) (written (fres (cs' ! i)))))"

definition fifo :: "jsval list list \<Rightarrow> jsval list list \<Rightarrow> bool" where
  "fifo before after =
     (length before \<le> length after \<and> (\<forall>i < length before. prefix (before ! i) (after ! i)))"

definition full_streams :: "fstate \<Rightarrow> jsval list list" where
  "full_streams s = map (\<lambda>c. written (fres c)) (conns s)"

definition simple_streams :: "sconn list \<Rightarrow> jsval list list" where
  "simple_streams cs = map (\<lambda>c. written (sres c)) cs"

text \<open>
  A session whose SDK server knows one tool, a request frame as a client
  would post it, and the error response for a factory that failed to start
  the browser.
\<close>

definition demo_session :: mcp_server where
  "demo_session = Connection (Some (Handlers [''browser_navigate'']))"

definition demo_frame :: string where
  "demo_frame = ''{\"jsonrpc\":\"2.0\",\"id\":\"1\",\"method\":\"browser_navigate\"}''"

definition demo_error_frame :: jsval where
  "demo_error_frame =
     JObj [(''jsonrpc'', JStr ''2.0''), (''id'', JNull),
           (''error'', JObj [(''code'', JNum (- 32603)),
                             (''message'', JStr ''spawn chrome ENOENT''),
                             (''data'', JObj [(''stack'', JStr ''Error: spawn chrome ENOENT'')])])]"

text \<open>
  The stream of a connection of the full server, by the stand of its handler.
  While the handler awaits the factory the stream is empty; while it awaits
  \<^verbatim>\<open>connect\<close> it holds the initialized notification. A finished handshake (the
  \<^verbatim>\<open>close\<close> listener is installed) leaves the initialized notification alone, or
  followed by one \<^verbatim>\<open>tools/list\<close> notification with an empty list or with the stubs
  of the session's tool handlers. A failed one (no listener) leaves an error
  response with id \<^verbatim>\<open>null\<close>, alone or after the initialized notification.
\<close>

definition full_stream_ok :: "fconn \<Rightarrow> bool" where
  "full_stream_ok c =
     (case phase c of
        AwaitFactory \<Rightarrow> written (fres c) = []
      | AwaitConnect \<Rightarrow> written (fres c) = [initialized_frame]
      | Settled \<Rightarrow>
          (if closeListener c
           then written (fres c) = [initialized_frame] \<or>
                written (fres c) = [initialized_frame, tools_frame (JArr [])] \<or>
                written (fres c) =
                  [initialized_frame, tools_frame (fallback_tools (mcpServer c))]
           else (case written (fres c) of
                   [e] \<Rightarrow> is_null_error e
                 | [a, e] \<Rightarrow> a = initialized_frame \<and> is_null_error e
                 | _ \<Rightarrow> False)))"

definition streams_ok :: "fstate \<Rightarrow> bool" where
  "streams_ok s = (\<forall>c \<in> set (conns s). full_stream_ok c)"

text \<open>
  A stream of the simple server: the handshake, cut off where a write threw
  (empty, the initialized notification alone, or with \<^verbatim>\<open>server/info\<close> behind it),
  or the three frames of the handshake, the last two carrying the static
  catalog, followed by heartbeats only.
\<close>

definition simple_stream_ok :: "jsval list \<Rightarrow> bool" where
  "simple_stream_ok fs =
     (fs = [] \<or> fs = [initialized_frame] \<or>
      fs = [initialized_frame, server_info_frame (JArr PLAYWRIGHT_TOOLS)] \<or>
      take 3 fs = [initialized_frame, server_info_frame (JArr PLAYWRIGHT_TOOLS),
                   tools_frame (JArr PLAYWRIGHT_TOOLS)] \<and>
      list_all (is_method ''heartbeat'') (drop 3 fs))"

section \<open>Sample inputs\<close>

text \<open>
  \<^verbatim>\<open>JSON.parse\<close> on the four request bodies used below; any other text stands
  for a malformed body.
\<close>

definition demo_parse :: "string \<Rightarrow> string + jsval" where
  "demo_parse body =
     (if body = ''null'' then Inr JNull
      else if body = ''{\"tool\":\"no_such_tool\"}''
        then Inr (JObj [(''tool'', JStr ''no_such_tool'')])
      else if body = ''{\"tool\":{\"toString\":1}}''
        then Inr (JObj [(''tool'', JObj [(''toString'', JNum 1)])])
      else if body = ''{\"tool\":1e999}''
        then Inr (JObj [(''tool'', JInfinity)])
      else Inl ''Unexpected token'')"

definition demo_builtins :: builtins where
  "demo_builtins =
     \<lparr>JSON_parse = demo_parse,
      JSON_text = (\<lambda>v. if v = JUndefined then ''undefined'' else ''{}''),
      Number_text = (\<lambda>n. ''0''),
      fault_message = (\<lambda>f. ''TypeError''),
      Error_stack = (\<lambda>m. ''Error: '' @ m)\<rparr>"

definition demo_config :: config where
  "demo_config =
     \<lparr>createConnection_loaded = True, SSEServerTransport_loaded = True,
      PLAYWRIGHT_HEADLESS = None, PLAYWRIGHT_BROWSER = None\<rparr>"

definition http_get :: "string \<Rightarrow> request" where
  "http_get u = \<lparr>req_method = ''GET'', req_url = u, req_chunks = []\<rparr>"

definition http_post :: "string \<Rightarrow> string \<Rightarrow> request" where
  "http_post u b = \<lparr>req_method = ''POST'', req_url = u, req_chunks = [b]\<rparr>"

section \<open>Replies of the plain endpoints\<close>

lemma wire_tools: "wire_elems PLAYWRIGHT_TOOLS = PLAYWRIGHT_TOOLS"
  by (simp add: PLAYWRIGHT_TOOLS_def)

lemma tool_names:
  "map tool_name PLAYWRIGHT_TOOLS =
     [JStr ''browser_navigate'', JStr ''page_screenshot'', JStr ''element_click'',
      JStr ''page_content'']"
  by (simp add: PLAYWRIGHT_TOOLS_def tool_name_def own_prop_def)

lemma reply_json_simps [simp]:
  "statusCode (reply_json code v res) = Some code"
  "written (reply_json code v res) = written res @ [wire v]"
  "ended (reply_json code v res)"
  by (simp_all add: reply_json_def res_end_def res_write_def writeHead_def)

lemma cors_res_simps [simp]:
  "statusCode cors_res = None" "written cors_res = []" "\<not> ended cors_res"
  by (simp_all add: cors_res_def)

lemma get_prop_field: "v \<noteq> JNull \<Longrightarrow> v \<noteq> JUndefined \<Longrightarrow> get_prop v k = Some (field v k)"
  by (cases v) (simp_all add: field_def)

text \<open>
  C8. The names of the static catalog are pairwise distinct, and \<^verbatim>\<open>/tools\<close> of
  the simple server answers 200 with the descriptors in their declaration
  order, whatever events the server has processed before; the request leaves
  the server's state as it was.
\<close>

theorem tools_catalog_stable:
  "distinct (map tool_name PLAYWRIGHT_TOOLS) \<and>
   map tool_name PLAYWRIGHT_TOOLS =
     [JStr ''browser_navigate'', JStr ''page_screenshot'', JStr ''element_click'',
      JStr ''page_content''] \<and>
   (req_method req \<noteq> ''OPTIONS'' \<and> req_url req = ''/tools'' \<longrightarrow>
      fst (simple_request B now ok req (simple_run B evs cs)) = simple_run B evs cs \<and>
      statusCode (snd (simple_request B now ok req (simple_run B evs cs))) = Some 200 \<and>
      written (snd (simple_request B now ok req (simple_run B evs cs))) =
        [JObj [(''tools'', JArr PLAYWRIGHT_TOOLS)]])"
  by (simp add: tool_names simple_request_def simple_tools_def wire_tools)

theorem tools_catalog_stable_witness:
  "req_method (http_get ''/tools'') \<noteq> ''OPTIONS'' \<and> req_url (http_get ''/tools'') = ''/tools'' \<and>
   written (snd (simple_request demo_builtins ''2025-01-01T00:00:40.000Z'' True (http_get ''/tools'')
      (simple_run demo_builtins
         [SRequest (http_get ''/mcp'') ''2025-01-01T00:00:00.000Z'' True,
          STick 0 ''2025-01-01T00:00:30.000Z'' True] []))) =
     [JObj [(''tools'', JArr PLAYWRIGHT_TOOLS)]]"
  using tools_catalog_stable [of "http_get ''/tools''" demo_builtins
      "''2025-01-01T00:00:40.000Z''" True
      "[SRequest (http_get ''/mcp'') ''2025-01-01T00:00:00.000Z'' True,
        STick 0 ''2025-01-01T00:00:30.000Z'' True]" "[]"]
  by (simp add: http_get_def)

text \<open>
  C9. A request for \<^verbatim>\<open>/health\<close>, \<^verbatim>\<open>/\<close> or \<^verbatim>\<open>/info\<close> leaves the whole state of
  either server unchanged: the Map of connected clients and every connection
  with its session in the full server, every connection and timer in the
  simple one. (The catalog is a constant of the model.)
\<close>

theorem introspection_read_only:
  "req_url req \<in> {''/health'', ''/'', ''/info''} \<Longrightarrow>
     full_step B cfg (FRequest req now uuid uptime) s = s \<and>
     simple_step B (SRequest req now ok) cs = cs"
  by (auto simp add: full_request_def simple_request_def)

theorem introspection_read_only_witness:
  "req_url (http_get ''/health'') \<in> {''/health'', ''/'', ''/info''} \<and>
   full_step demo_builtins demo_config
     (FRequest (http_get ''/health'') ''2025-01-01T00:00:00.000Z'' ''c1'' 5) full_init = full_init \<and>
   simple_step demo_builtins (SRequest (http_get ''/health'') ''2025-01-01T00:00:00.000Z'' True) [] = []"
  using introspection_read_only [of "http_get ''/health''" demo_builtins demo_config
      "''2025-01-01T00:00:00.000Z''" "''c1''" 5 full_init True "[]"]
  by (simp add: http_get_def)

text \<open>
  C6, as the code has it. \<^verbatim>\<open>/health\<close> answers 200 with the status
  \<^verbatim>\<open>healthy\<close> and the timestamp on both servers. The full server adds the size
  of the Map of connected clients; the simple server, which keeps no such Map,
  adds the number of tools of its catalog instead.
\<close>

theorem health_reports:
  "req_method req \<noteq> ''OPTIONS'' \<Longrightarrow> req_url req = ''/health'' \<Longrightarrow>
     statusCode (snd (full_request B cfg req now uuid uptime s)) = Some 200 \<and>
     written (snd (full_request B cfg req now uuid uptime s)) =
       [JObj [(''status'', JStr ''healthy''), (''timestamp'', JStr now),
              (''service'', JStr ''playwright-mcp-server''),
              (''clients'', JNum (of_nat (length (connectedClients s))))]] \<and>
     statusCode (snd (simple_request B now ok req cs)) = Some 200 \<and>
     written (snd (simple_request B now ok req cs)) =
       [JObj [(''status'', JStr ''healthy''), (''timestamp'', JStr now),
              (''service'', JStr ''simple-mcp-server''),
              (''tools'', JNum 4)]]"
  by (simp add: full_request_def simple_request_def full_health_def simple_health_def
      PLAYWRIGHT_TOOLS_def)

theorem health_reports_witness:
  "req_method (http_get ''/health'') \<noteq> ''OPTIONS'' \<and> req_url (http_get ''/health'') = ''/health'' \<and>
   written (snd (full_request demo_builtins demo_config (http_get ''/health'')
       ''2025-01-01T00:00:00.000Z'' ''c1'' 5 full_init)) =
     [JObj [(''status'', JStr ''healthy''), (''timestamp'', JStr ''2025-01-01T00:00:00.000Z''),
            (''service'', JStr ''playwright-mcp-server''), (''clients'', JNum 0)]] \<and>
   written (snd (simple_request demo_builtins ''2025-01-01T00:00:00.000Z'' True
       (http_get ''/health'') [])) =
     [JObj [(''status'', JStr ''healthy''), (''timestamp'', JStr ''2025-01-01T00:00:00.000Z''),
            (''service'', JStr ''simple-mcp-server''), (''tools'', JNum 4)]]"
  using health_reports [of "http_get ''/health''" demo_builtins demo_config
      "''2025-01-01T00:00:00.000Z''" "''c1''" 5 full_init True "[]"]
  by (simp add: http_get_def full_init_def)

text \<open>
  The health reply of the simple server has no \<^verbatim>\<open>clients\<close> field.
\<close>

theorem health_simple_counterexample:
  "\<not> has_field (hd (written (snd (simple_request demo_builtins ''2025-01-01T00:00:00.000Z'' True
        (http_get ''/health'') [])))) ''clients''"
  by (simp add: simple_request_def http_get_def simple_health_def has_field_def)

text \<open>
  C3, as the code has it. \<^verbatim>\<open>POST /execute\<close> on the simple server changes no
  state and always ends its response. When the body parses to a value other
  than \<^verbatim>\<open>null\<close> whose \<^verbatim>\<open>tool\<close> converts to a string, the reply is 200 with
  exactly the fields \<^verbatim>\<open>tool\<close>, \<^verbatim>\<open>status: success\<close>, \<^verbatim>\<open>result\<close> and
  \<^verbatim>\<open>timestamp\<close>: the catalog is not consulted and nothing marks the result as
  simulated. The \<^verbatim>\<open>tool\<close> field is the request's tool as \<^verbatim>\<open>JSON.stringify\<close>
  writes it: left out when the request has none, and \<^verbatim>\<open>null\<close> for a number that
  overflowed to \<^verbatim>\<open>Infinity\<close>, which the text of \<^verbatim>\<open>result\<close> still names. A body
  that does not parse, a body that parses to \<^verbatim>\<open>null\<close>, and a \<^verbatim>\<open>tool\<close> that has no
  string conversion give 400 with an error body.
\<close>

lemma execute_ended: "ended (execute B now body res)"
  by (simp add: execute_def bad_request_def split: sum.splits option.splits)

theorem execute_result:
  assumes "req_method req = ''POST''" and "req_url req = ''/execute''"
  shows "fst (simple_request B now ok req cs) = cs \<and>
    ended (snd (simple_request B now ok req cs)) \<and>
    (JSON_parse B (concat (req_chunks req)) = Inr request \<and>
     request \<noteq> JNull \<and> request \<noteq> JUndefined \<and>
     toStringJS (Number_text B) (field request ''tool'') = Some name \<longrightarrow>
       statusCode (snd (simple_request B now ok req cs)) = Some 200 \<and>
       written (snd (simple_request B now ok req cs)) =
         [JObj ((if field request ''tool'' = JUndefined then []
                 else [(''tool'', wire (field request ''tool''))]) @
                [(''status'', JStr ''success''),
                 (''result'', JStr (''Executed '' @ name @ '' with params: '' @
                     JSON_text B (field request ''params''))),
                 (''timestamp'', JStr now)])]) \<and>
    (JSON_parse B (concat (req_chunks req)) = Inl msg \<longrightarrow>
       statusCode (snd (simple_request B now ok req cs)) = Some 400 \<and>
       written (snd (simple_request B now ok req cs)) =
         [JObj [(''error'', JStr msg_bad_request), (''details'', JStr msg)]]) \<and>
    (JSON_parse B (concat (req_chunks req)) = Inr JNull \<longrightarrow>
       statusCode (snd (simple_request B now ok req cs)) = Some 400 \<and>
       written (snd (simple_request B now ok req cs)) =
         [JObj [(''error'', JStr msg_bad_request),
                (''details'', JStr (fault_message B ReadOfNullish))]]) \<and>
    (JSON_parse B (concat (req_chunks req)) = Inr request \<and>
     request \<noteq> JNull \<and> request \<noteq> JUndefined \<and>
     toStringJS (Number_text B) (field request ''tool'') = None \<longrightarrow>
       statusCode (snd (simple_request B now ok req cs)) = Some 400 \<and>
       written (snd (simple_request B now ok req cs)) =
         [JObj [(''error'', JStr msg_bad_request),
                (''details'', JStr (fault_message B NotPrimitive))]])"
proof -
  have "ended (snd (simple_request B now ok req cs))"
    using assms by (simp add: simple_request_def execute_ended)
  with assms show ?thesis
    by (simp add: simple_request_def execute_def bad_request_def get_prop_field)
qed

theorem execute_result_witness:
  "req_method (http_post ''/execute'' ''{\"tool\":\"no_such_tool\"}'') = ''POST'' \<and>
   req_url (http_post ''/execute'' ''{\"tool\":\"no_such_tool\"}'') = ''/execute'' \<and>
   JSON_parse demo_builtins ''{\"tool\":\"no_such_tool\"}'' = Inr (JObj [(''tool'', JStr ''no_such_tool'')]) \<and>
   toStringJS (Number_text demo_builtins) (JStr ''no_such_tool'') = Some ''no_such_tool'' \<and>
   JStr ''no_such_tool'' \<notin> set (map tool_name PLAYWRIGHT_TOOLS) \<and>
   statusCode (snd (simple_request demo_builtins ''2025-01-01T00:00:00.000Z'' True
      (http_post ''/execute'' ''{\"tool\":\"no_such_tool\"}'') [])) = Some 200 \<and>
   written (snd (simple_request demo_builtins ''2025-01-01T00:00:00.000Z'' True
      (http_post ''/execute'' ''{\"tool\":\"no_such_tool\"}'') [])) =
     [JObj [(''tool'', JStr ''no_such_tool''), (''status'', JStr ''success''),
            (''result'', JStr ''Executed no_such_tool with params: undefined''),
            (''timestamp'', JStr ''2025-01-01T00:00:00.000Z'')]] \<and>
   JSON_parse demo_builtins ''{tool'' = Inl ''Unexpected token'' \<and>
   statusCode (snd (simple_request demo_builtins ''2025-01-01T00:00:00.000Z'' True
      (http_post ''/execute'' ''{tool'') [])) = Some 400 \<and>
   JSON_parse demo_builtins ''{\"tool\":{\"toString\":1}}'' =
     Inr (JObj [(''tool'', JObj [(''toString'', JNum 1)])]) \<and>
   toStringJS (Number_text demo_builtins) (JObj [(''toString'', JNum 1)]) = None \<and>
   statusCode (snd (simple_request demo_builtins ''2025-01-01T00:00:00.000Z'' True
      (http_post ''/execute'' ''{\"tool\":{\"toString\":1}}'') [])) = Some 400 \<and>
   JSON_parse demo_builtins ''{\"tool\":1e999}'' = Inr (JObj [(''tool'', JInfinity)]) \<and>
   toStringJS (Number_text demo_builtins) JInfinity = Some ''Infinity'' \<and>
   written (snd (simple_request demo_builtins ''2025-01-01T00:00:00.000Z'' True
      (http_post ''/execute'' ''{\"tool\":1e999}'') [])) =
     [JObj [(''tool'', JNull), (''status'', JStr ''success''),
            (''result'', JStr ''Executed Infinity with params: undefined''),
            (''timestamp'', JStr ''2025-01-01T00:00:00.000Z'')]] \<and>
   ended (snd (simple_request demo_builtins ''2025-01-01T00:00:00.000Z'' True
      (http_post ''/execute'' ''{\"tool\":1e999}'') []))"
  using
    execute_result [of "http_post ''/execute'' ''{\"tool\":\"no_such_tool\"}''" demo_builtins
      "''2025-01-01T00:00:00.000Z''" True "[]" "JObj [(''tool'', JStr ''no_such_tool'')]"
      "''no_such_tool''" "[]"]
    execute_result [of "http_post ''/execute'' ''{tool''" demo_builtins
      "''2025-01-01T00:00:00.000Z''" True "[]" JNull "[]" "''Unexpected token''"]
    execute_result [of "http_post ''/execute'' ''{\"tool\":{\"toString\":1}}''" demo_builtins
      "''2025-01-01T00:00:00.000Z''" True "[]" "JObj [(''tool'', JObj [(''toString'', JNum 1)])]"
      "[]" "[]"]
    execute_result [of "http_post ''/execute'' ''{\"tool\":1e999}''" demo_builtins
      "''2025-01-01T00:00:00.000Z''" True "[]" "JObj [(''tool'', JInfinity)]"
      "''Infinity''" "[]"]
  by (simp add: http_post_def demo_builtins_def demo_parse_def field_def own_prop_def tool_names)

text \<open>
  The body \<^verbatim>\<open>null\<close> parses as JSON, and the reply is 400: reading \<^verbatim>\<open>request.tool\<close>
  throws inside the \<^verbatim>\<open>try\<close> block.
\<close>

theorem execute_null_counterexample:
  "JSON_parse demo_builtins (concat (req_chunks (http_post ''/execute'' ''null''))) = Inr JNull \<and>
   statusCode (snd (simple_request demo_builtins ''2025-01-01T00:00:00.000Z'' True
      (http_post ''/execute'' ''null'') [])) = Some 400"
  by (simp add: http_post_def demo_builtins_def demo_parse_def simple_request_def execute_def
      bad_request_def)

section \<open>Invariants of the full server\<close>

lemma written_sendMCPNotification:
  "written (sendMCPNotification res m p) =
   written res @ [JObj [(''jsonrpc'', JStr ''2.0''), (''method'', JStr m),
         (''params'', wire (if p = JUndefined then JObj [] else p))]]"
  by (simp add: sendMCPNotification_def res_write_def)

lemma is_method_frame:
  "is_method m' (JObj [(''jsonrpc'', JStr ''2.0''), (''method'', JStr m), (''params'', ps)]) = (m' = m)"
  by (auto simp add: is_method_def is_notification_def has_field_def field_def own_prop_def)

lemma other_sendMCPNotification [simp]:
  "statusCode (sendMCPNotification res m p) = statusCode res"
  "ended (sendMCPNotification res m p) = ended res"
  "headers (sendMCPNotification res m p) = headers res"
  by (simp_all add: sendMCPNotification_def res_write_def)

lemma js_or_defined: "b \<noteq> JUndefined \<Longrightarrow> js_or a b \<noteq> JUndefined"
  by (cases a) (auto simp add: js_or_def)

lemma written_sendMCPError:
  "written (sendMCPError res rid e) =
   written res @ [JObj (wire_props [(''jsonrpc'', JStr ''2.0''), (''id'', rid),
        (''error'', JObj [(''code'', JNum (- 32603)),
                          (''message'', js_or (own_prop e ''message'') (JStr ''Internal error'')),
                          (''data'', js_or (own_prop e ''data'') JNull)])])]"
  by (simp add: sendMCPError_def res_write_def)

lemma null_error_frame:
  "is_null_error (JObj (wire_props [(''jsonrpc'', JStr ''2.0''), (''id'', JNull), (''error'', JObj e)]))"
  by (simp add: is_null_error_def is_response_def has_field_def field_def own_prop_def)

lemma other_sendMCPError [simp]:
  "statusCode (sendMCPError res rid e) = statusCode res"
  "ended (sendMCPError res rid e) = ended res"
  "headers (sendMCPError res rid e) = headers res"
  by (simp_all add: sendMCPError_def res_write_def)

lemma init_first_append:
  assumes "init_first fs"
    and "is_method ''tools/list'' f \<Longrightarrow> \<exists>g \<in> set fs. is_method ''notifications/initialized'' g"
  shows "init_first (fs @ [f])"
proof (cases "\<forall>x \<in> set fs. \<not> is_method ''notifications/initialized'' x")
  case True
  then have "takeWhile (\<lambda>f. \<not> is_method ''notifications/initialized'' f) fs = fs"
    by (simp add: takeWhile_eq_all_conv)
  with assms(1) have a: "\<forall>x \<in> set fs. \<not> is_method ''tools/list'' x"
    by (simp add: init_first_def)
  have b: "\<not> is_method ''tools/list'' f"
    using assms(2) True by blast
  show ?thesis
    unfolding init_first_def
  proof
    fix x assume "x \<in> set (takeWhile (\<lambda>f. \<not> is_method ''notifications/initialized'' f) (fs @ [f]))"
    then have "x \<in> set (fs @ [f])" by (rule set_takeWhileD [THEN conjunct1])
    then show "\<not> is_method ''tools/list'' x" using a b by auto
  qed
next
  case False
  then show ?thesis
    using assms by (auto simp add: init_first_def takeWhile_append)
qed

lemma null_error_not_method: "is_null_error f \<Longrightarrow> \<not> is_method m f"
  by (auto simp add: is_null_error_def is_method_def is_notification_def is_response_def)

lemma full_frame_notification:
  "m = ''notifications/initialized'' \<or> m = ''tools/list'' \<Longrightarrow>
   full_frame (JObj [(''jsonrpc'', JStr ''2.0''), (''method'', JStr m), (''params'', ps)])"
  by (auto simp add: full_frame_def is_method_frame)

lemma headersSent_setup: "headersSent (setupSSEHeaders res)"
  by (simp add: headersSent_def setupSSEHeaders_def writeHead_def)

lemma fconn_ok_new: "fconn_ok (new_conn uuid)"
  by (simp add: fconn_ok_def new_conn_def headersSent_setup init_first_def)
     (simp add: setupSSEHeaders_def writeHead_def cors_res_def)

lemma set_update_all:
  assumes "\<forall>c \<in> set cs. P c" and "P c'"
  shows "\<forall>c \<in> set (cs[i := c']). P c"
proof
  fix c assume "c \<in> set (cs[i := c'])"
  then have "c = c' \<or> c \<in> set cs"
    using set_update_subset_insert [of cs i c'] by auto
  then show "P c" using assms by auto
qed

text \<open>The effect of one more frame on a connection of the full server.\<close>

lemma fconn_ok_write:
  assumes ok: "fconn_ok c"
    and res: "statusCode (fres c') = statusCode (fres c)" "ended (fres c') = ended (fres c)"
      "written (fres c') = written (fres c) @ [f]"
    and f: "full_frame f"
    and tools: "is_method ''tools/list'' f \<Longrightarrow>
                  \<exists>g \<in> set (written (fres c)). is_method ''notifications/initialized'' g"
    and ph: "phase c' = Settled \<or>
             phase c' = AwaitConnect \<and> is_method ''notifications/initialized'' f \<and> \<not> closeListener c'"
  shows "fconn_ok c'"
proof -
  have "init_first (written (fres c) @ [f])"
    using ok tools by (intro init_first_append) (auto simp add: fconn_ok_def)
  then show ?thesis
    using ok res f ph by (auto simp add: fconn_ok_def headersSent_def)
qed

lemma fconn_ok_failed:
  assumes "fconn_ok c"
  shows "fconn_ok (c\<lparr>fres := sendMCPError (fres c) JNull e, phase := Settled\<rparr>)"
proof (rule fconn_ok_write [OF assms])
  let ?f = "JObj (wire_props [(''jsonrpc'', JStr ''2.0''), (''id'', JNull),
        (''error'', JObj [(''code'', JNum (- 32603)),
                          (''message'', js_or (own_prop e ''message'') (JStr ''Internal error'')),
                          (''data'', js_or (own_prop e ''data'') JNull)])])"
  show "written (fres (c\<lparr>fres := sendMCPError (fres c) JNull e, phase := Settled\<rparr>)) =
        written (fres c) @ [?f]"
    by (simp add: written_sendMCPError)
  have ne: "is_null_error ?f" by (rule null_error_frame)
  then show "full_frame ?f" by (simp add: full_frame_def)
  show "\<exists>g \<in> set (written (fres c)). is_method ''notifications/initialized'' g"
    if "is_method ''tools/list'' ?f"
    using that null_error_not_method [OF ne] by simp
qed simp_all

lemma fconn_ok_fail_conn:
  assumes "fconn_ok c"
  shows "fconn_ok (fail_conn msg stack c)"
  using fconn_ok_failed [OF assms] assms by (simp add: fail_conn_def fconn_ok_def)

lemma fconn_ok_announce:
  assumes "fconn_ok c" "phase c = AwaitFactory"
  shows "fconn_ok ((announce m c)\<lparr>phase := AwaitConnect\<rparr>)"
  by (rule fconn_ok_write [OF assms(1), where f = "JObj [(''jsonrpc'', JStr ''2.0''),
         (''method'', JStr ''notifications/initialized''), (''params'', JObj [])]"])
     (use assms in \<open>simp_all add: announce_def written_sendMCPNotification
        full_frame_notification is_method_frame fconn_ok_def\<close>)

lemma fconn_ok_announce_settled:
  assumes "fconn_ok c" "phase c = AwaitFactory"
  shows "fconn_ok ((announce m c)\<lparr>phase := Settled\<rparr>)"
  by (rule fconn_ok_write [OF assms(1), where f = "JObj [(''jsonrpc'', JStr ''2.0''),
         (''method'', JStr ''notifications/initialized''), (''params'', JObj [])]"])
     (use assms in \<open>simp_all add: announce_def written_sendMCPNotification
        full_frame_notification is_method_frame fconn_ok_def\<close>)

lemma fconn_ok_install_close:
  "fconn_ok c \<Longrightarrow> phase c \<noteq> AwaitFactory \<Longrightarrow> fconn_ok (install_close c)"
  by (simp add: fconn_ok_def install_close_def)

lemma fconn_ok_empty_tools:
  assumes "fconn_ok c" "phase c = AwaitFactory"
  shows "fconn_ok (send_empty_tools (announce m c))"
proof -
  have "fconn_ok (send_empty_tools ((announce m c)\<lparr>phase := Settled\<rparr>))"
    unfolding send_empty_tools_def install_close_def
    by (rule fconn_ok_write [OF fconn_ok_announce_settled [OF assms, of m],
          where f = "JObj [(''jsonrpc'', JStr ''2.0''),
         (''method'', JStr ''tools/list''), (''params'', JObj [(''tools'', JArr [])])]"])
       (simp_all add: announce_def written_sendMCPNotification full_frame_notification
          is_method_frame)
  then show ?thesis
    by (simp add: send_empty_tools_def install_close_def)
qed

lemma fail_conn_phase: "fail_conn msg stack (c\<lparr>phase := p\<rparr>) = fail_conn msg stack c"
  by (simp add: fail_conn_def)

lemma fconn_ok_fail_announce:
  assumes "fconn_ok c" "phase c = AwaitFactory"
  shows "fconn_ok (fail_conn msg stack (announce m c))"
  using fconn_ok_fail_conn [OF fconn_ok_announce_settled [OF assms], of msg stack m]
  by (simp only: fail_conn_phase)

lemma fconn_ok_connect_failed:
  assumes "fconn_ok c" "phase c = AwaitConnect"
  shows "fconn_ok (connect_failed c)"
proof -
  obtain ps where w: "written (sendMCPNotification (fres c) ''tools/list''
        (JObj [(''tools'', fallback_tools (mcpServer c))])) =
      written (fres c) @ [JObj [(''jsonrpc'', JStr ''2.0''), (''method'', JStr ''tools/list''),
         (''params'', ps)]]"
    using written_sendMCPNotification by blast
  show ?thesis
    unfolding connect_failed_def install_close_def
    by (rule fconn_ok_write [OF assms(1), where f = "JObj [(''jsonrpc'', JStr ''2.0''),
           (''method'', JStr ''tools/list''), (''params'', ps)]"])
       (use assms w in \<open>simp_all add: full_frame_notification fconn_ok_def\<close>)
qed

lemma fconn_ok_closed: "fconn_ok c \<Longrightarrow> fconn_ok (c\<lparr>closed := b\<rparr>)"
  by (simp add: fconn_ok_def)

lemma conns_okD: "conns_ok s \<Longrightarrow> i < length (conns s) \<Longrightarrow> fconn_ok (conns s ! i)"
  by (simp add: conns_ok_def)

lemma conns_ok_update:
  "conns_ok s \<Longrightarrow> fconn_ok c' \<Longrightarrow> conns s' = (conns s)[i := c'] \<Longrightarrow> conns_ok s'"
  unfolding conns_ok_def using set_update_all [of "conns s" fconn_ok c' i] by simp

lemma conns_ok_failed:
  assumes "conns_ok s" "i < length (conns s)"
  shows "conns_ok (mcp_failed msg st i s)"
  by (rule conns_ok_update [OF assms(1) fconn_ok_fail_conn [OF conns_okD [OF assms]]])
     (simp add: mcp_failed_def Let_def)

lemma conns_ok_resumed:
  assumes "conns_ok s" "i < length (conns s)" "phase (conns s ! i) = AwaitFactory"
  shows "conns_ok (mcp_resumed B cfg i m now s)"
proof -
  note c = conns_okD [OF assms(1,2)]
  have a: "conns_ok s'" if "conns s' = (conns s)[i := send_empty_tools (announce m (conns s ! i))]" for s'
    by (rule conns_ok_update [OF assms(1) fconn_ok_empty_tools [OF c assms(3)] that])
  have b: "conns_ok s'" if "conns s' = (conns s)[i := (announce m (conns s ! i))\<lparr>phase := AwaitConnect\<rparr>]" for s'
    by (rule conns_ok_update [OF assms(1) fconn_ok_announce [OF c assms(3)] that])
  have d: "conns_ok s'" if "conns s' = (conns s)[i := fail_conn msg st (announce m (conns s ! i))]" for s' msg st
    by (rule conns_ok_update [OF assms(1) fconn_ok_fail_announce [OF c assms(3)] that])
  show ?thesis
  proof (cases "SSEServerTransport_loaded cfg")
    case False
    then show ?thesis by (intro a) (simp add: mcp_resumed_def Let_def)
  next
    case True
    show ?thesis
    proof (cases m)
      case Nullish
      with True assms(2) show ?thesis
        by (intro d) (simp add: mcp_resumed_def Let_def mcp_failed_def)
    next
      case (Connection srv)
      show ?thesis
      proof (cases srv)
        case None
        with True Connection show ?thesis
          by (intro a) (simp add: mcp_resumed_def Let_def)
      next
        case (Some th)
        with True Connection show ?thesis
          by (intro b) (simp add: mcp_resumed_def Let_def)
      qed
    qed
  qed
qed

lemma conns_ok_request: 
  assumes "conns_ok s"
  shows "conns_ok (fst (full_request B cfg req now uuid up s))"
proof -
  let ?s0 = "s\<lparr>conns := conns s @ [new_conn uuid]\<rparr>"
  have new: "conns_ok ?s0"
    using assms by (simp add: conns_ok_def fconn_ok_new)
  have "conns_ok (mcp_failed msg st (length (conns s)) ?s0)" for msg st
    by (rule conns_ok_failed [OF new]) simp
  then show ?thesis
    using assms new by (simp add: full_request_def Let_def)
qed

lemma conns_ok_step:
  assumes "conns_ok s"
  shows "conns_ok (full_step B cfg ev s)"
proof (cases ev)
  case (FRequest req now uuid up)
  then show ?thesis using conns_ok_request [OF assms] assms by simp
next
  case (FactoryResolved i m now)
  then show ?thesis using conns_ok_resumed [OF assms] assms by simp
next
  case (FactoryRejected i msg st)
  then show ?thesis using conns_ok_failed [OF assms] assms by simp
next
  case (FactoryRejectedNullish i)
  then show ?thesis using assms by (simp add: mcp_unhandled_def conns_ok_def)
next
  case (ConnectRejectedNullish i)
  then show ?thesis
    using conns_ok_failed [OF assms] assms by (simp add: connect_failed_nullish_def)
next
  case (ConnectResolved i)
  have "conns_ok (s\<lparr>conns := (conns s)[i := install_close (conns s ! i)]\<rparr>)"
    if "i < length (conns s)" "phase (conns s ! i) = AwaitConnect"
    by (rule conns_ok_update [OF assms fconn_ok_install_close [OF conns_okD [OF assms that(1)]]])
       (use that in simp_all)
  then show ?thesis using ConnectResolved assms by simp
next
  case (ConnectRejected i)
  have "conns_ok (s\<lparr>conns := (conns s)[i := connect_failed (conns s ! i)]\<rparr>)"
    if "i < length (conns s)" "phase (conns s ! i) = AwaitConnect"
    by (rule conns_ok_update [OF assms fconn_ok_connect_failed [OF conns_okD [OF assms that(1)] that(2)]])
       simp
  then show ?thesis using ConnectRejected assms by simp
next
  case (FClose i)
  have "conns_ok (on_close i s)" if "i < length (conns s)"
  proof (cases "closed (conns s ! i)")
    case True
    then show ?thesis using assms by (simp add: on_close_def)
  next
    case False
    show ?thesis
      by (rule conns_ok_update [OF assms fconn_ok_closed [OF conns_okD [OF assms that], of True]])
         (use False in \<open>simp add: on_close_def Let_def\<close>)
  qed
  then show ?thesis using FClose assms by simp
qed

lemma conns_ok_init: "conns_ok full_init"
  by (simp add: conns_ok_def full_init_def)

section \<open>Invariants of the simple server\<close>

lemma wire_initMessage: "wire initMessage = initMessage"
  by (simp add: initMessage_def)

lemma wire_serverInfo: "wire serverInfo = serverInfo"
  by (simp add: serverInfo_def wire_tools)

lemma wire_toolsList: "wire toolsList = toolsList"
  by (simp add: toolsList_def wire_tools)

lemma wire_heartbeat: "wire (heartbeat now) = heartbeat now"
  by (simp add: heartbeat_def)

lemma is_method_heartbeat: "is_method m (heartbeat now) = (m = ''heartbeat'')"
  by (simp add: heartbeat_def is_method_frame)

lemma is_method_initMessage: "is_method m initMessage = (m = ''notifications/initialized'')"
  by (simp add: initMessage_def is_method_frame)

lemma written_simple_mcp:
  "written (sres (simple_mcp B ok res)) =
     (if ok then written res @ [initMessage, serverInfo, toolsList] else written res)"
  by (simp add: simple_mcp_def Let_def res_write_def writeHead_def headersSent_def
      wire_initMessage wire_serverInfo wire_toolsList)

lemma sconn_ok_simple_mcp: "sconn_ok (simple_mcp B ok cors_res)"
  by (simp add: sconn_ok_def simple_mcp_def Let_def res_write_def writeHead_def headersSent_def
      wire_initMessage wire_serverInfo wire_toolsList)

lemma written_fold_res_write: "written (fold res_write fs res) = written res @ map wire fs"
  by (induction fs arbitrary: res) (simp_all add: res_write_def)

lemma written_simple_mcp_cut:
  "written (sres (simple_mcp_cut n cors_res)) = take n [initMessage, serverInfo, toolsList]"
proof -
  have m: "map wire [initMessage, serverInfo, toolsList] = [initMessage, serverInfo, toolsList]"
    by (simp add: wire_initMessage wire_serverInfo wire_toolsList)
  have "map wire (take n [initMessage, serverInfo, toolsList]) =
      take n (map wire [initMessage, serverInfo, toolsList])"
    by (rule take_map [symmetric])
  then have "map wire (take n [initMessage, serverInfo, toolsList]) =
      take n [initMessage, serverInfo, toolsList]"
    by (simp only: m)
  then show ?thesis
    by (simp only: simple_mcp_cut_def sconn.simps written_fold_res_write)
       (simp add: writeHead_def cors_res_def)
qed

lemma sconn_ok_simple_mcp_cut: "n < 3 \<Longrightarrow> sconn_ok (simple_mcp_cut n cors_res)"
proof -
  assume "n < 3"
  then consider "n = 0" | "n = 1" | "n = 2" by linarith
  then show ?thesis
    by cases
       (simp_all add: sconn_ok_def simple_mcp_cut_def res_write_def writeHead_def headersSent_def
          wire_initMessage wire_serverInfo cors_res_def)
qed

lemma sconn_ok_tick: "sconn_ok c \<Longrightarrow> sconn_ok (heartbeat_tick now ok c)"
  by (auto simp add: sconn_ok_def heartbeat_tick_def res_write_def headersSent_def wire_heartbeat
      is_method_heartbeat)

lemma sconn_ok_clear: "sconn_ok c \<Longrightarrow> sconn_ok (clear_heartbeat c)"
  by (auto simp add: sconn_ok_def clear_heartbeat_def)

lemma sconns_ok_update:
  assumes "\<forall>c \<in> set cs. sconn_ok c" and "\<And>c. sconn_ok c \<Longrightarrow> sconn_ok (f c)"
  shows "\<forall>c \<in> set (if i < length cs then cs[i := f (cs ! i)] else cs). sconn_ok c"
proof (cases "i < length cs")
  case True
  with assms have "sconn_ok (f (cs ! i))" by simp
  from set_update_all [OF assms(1) this] True show ?thesis by simp
next
  case False
  with assms(1) show ?thesis by simp
qed

lemma sconns_ok_step:
  assumes "\<forall>c \<in> set cs. sconn_ok c"
  shows "\<forall>c \<in> set (simple_step B ev cs). sconn_ok c"
proof (cases ev)
  case (SRequest req now ok)
  then show ?thesis
    using assms by (auto simp add: simple_request_def Let_def sconn_ok_simple_mcp)
next
  case (STick i now ok)
  then show ?thesis
    using sconns_ok_update [OF assms, of "heartbeat_tick now ok" i] by (simp add: sconn_ok_tick)
next
  case (SClose i)
  then show ?thesis
    using sconns_ok_update [OF assms, of clear_heartbeat i] by (simp add: sconn_ok_clear)
next
  case (SError i)
  then show ?thesis
    using sconns_ok_update [OF assms, of clear_heartbeat i] by (simp add: sconn_ok_clear)
next
  case (SRequestCut req now n)
  then show ?thesis
    using assms
    by (auto simp add: simple_request_def Let_def sconn_ok_simple_mcp sconn_ok_simple_mcp_cut)
qed

lemma sconns_ok_run:
  "\<forall>c \<in> set cs. sconn_ok c \<Longrightarrow> \<forall>c \<in> set (simple_run B evs cs). sconn_ok c"
  unfolding simple_run_def
proof (induction evs arbitrary: cs)
  case Nil
  then show ?case by simp
next
  case (Cons ev evs)
  from Cons.IH [OF sconns_ok_step [OF Cons.prems, of B ev]] show ?case by simp
qed

lemma sconn_ok_init_first: "sconn_ok c \<Longrightarrow> init_first (written (sres c))"
  by (auto simp add: sconn_ok_def init_first_def is_method_initMessage)

lemma is_notification_frame:
  "is_notification (JObj [(''jsonrpc'', JStr ''2.0''), (''method'', JStr m), (''params'', ps)])"
  by (simp add: is_notification_def has_field_def)

lemma sconn_ok_notifications:
  assumes "sconn_ok c" "f \<in> set (written (sres c))"
  shows "is_notification f"
proof -
  have "is_notification initMessage" "is_notification serverInfo" "is_notification toolsList"
    by (simp_all add: initMessage_def serverInfo_def toolsList_def is_notification_frame)
  then show ?thesis
    using assms by (auto simp add: sconn_ok_def list_all_iff is_method_def)
qed

section \<open>Streams are append-only\<close>

lemma prefix_fail_conn: "prefix (written (fres c)) (written (fres (fail_conn msg stack c)))"
  by (simp add: fail_conn_def written_sendMCPError)

lemma prefix_announce: "prefix (written (fres c)) (written (fres (announce m c)))"
  by (simp add: announce_def written_sendMCPNotification)

lemma prefix_send_empty_tools: "prefix (written (fres c)) (written (fres (send_empty_tools c)))"
  by (simp add: send_empty_tools_def install_close_def written_sendMCPNotification)

lemma prefix_connect_failed: "prefix (written (fres c)) (written (fres (connect_failed c)))"
  by (simp add: connect_failed_def install_close_def written_sendMCPNotification del: wire.simps)

lemma grows_refl: "grows cs cs"
  by (simp add: grows_def)

lemma grows_update:
  assumes "i < length cs \<Longrightarrow> prefix (written (fres (cs ! i))) (written (fres c'))"
  shows "grows cs (cs[i := c'])"
proof (cases "i < length cs")
  case True
  then show ?thesis
    using assms by (auto simp add: grows_def nth_list_update)
next
  case False
  then show ?thesis by (simp add: grows_def)
qed

lemma grows_trans:
  assumes "grows a b" and "grows b c"
  shows "grows a c"
  unfolding grows_def
proof (intro conjI allI impI)
  show "length a \<le> length c"
    using assms by (simp add: grows_def)
  fix i assume i: "i < length a"
  then have "prefix (written (fres (a ! i))) (written (fres (b ! i)))"
    using assms(1) by (simp add: grows_def)
  moreover have "prefix (written (fres (b ! i))) (written (fres (c ! i)))"
    using assms i by (simp add: grows_def)
  ultimately show "prefix (written (fres (a ! i))) (written (fres (c ! i)))"
    by (rule prefix_order.trans)
qed

lemma grows_failed: "grows (conns s) (conns (mcp_failed msg st i s))"
  by (simp add: mcp_failed_def Let_def grows_update prefix_fail_conn)

lemma grows_step: "grows (conns s) (conns (full_step B cfg ev s))"
proof (cases ev)
  case (FRequest req now uuid up)
  have a: "grows (conns s) (conns s @ [c])" for c
    by (simp add: grows_def nth_append)
  have "grows (conns s @ [c]) (conns (mcp_failed msg st i (s\<lparr>conns := conns s @ [c]\<rparr>)))" for c msg st i
    using grows_failed [of "s\<lparr>conns := conns s @ [c]\<rparr>"] by simp
  from grows_trans [OF a this] show ?thesis
    using FRequest a by (simp add: full_request_def Let_def grows_refl)
next
  case (FactoryResolved i m now)
  let ?c = "conns s ! i"
  have 1: "grows (conns s) ((conns s)[i := send_empty_tools (announce m ?c)])"
    by (intro grows_update prefix_order.trans [OF prefix_announce prefix_send_empty_tools])
  have 2: "grows (conns s) ((conns s)[i := (announce m ?c)\<lparr>phase := AwaitConnect\<rparr>])"
    using prefix_announce [of ?c m] by (intro grows_update) simp
  have 3: "grows (conns s) ((conns s)[i := fail_conn msg st (announce m ?c)])" for msg st
    by (intro grows_update prefix_order.trans [OF prefix_announce prefix_fail_conn])
  show ?thesis
    using FactoryResolved 1 2 3
    by (auto simp add: mcp_resumed_def Let_def mcp_failed_def grows_refl
        split: mcp_server.splits option.splits)
next
  case (FactoryRejected i msg st)
  then show ?thesis by (simp add: grows_failed grows_refl)
next
  case (FactoryRejectedNullish i)
  then show ?thesis by (simp add: mcp_unhandled_def grows_refl)
next
  case (ConnectRejectedNullish i)
  then show ?thesis by (simp add: connect_failed_nullish_def grows_failed grows_refl)
next
  case (ConnectResolved i)
  then show ?thesis by (simp add: grows_refl grows_update install_close_def)
next
  case (ConnectRejected i)
  then show ?thesis by (simp add: grows_refl grows_update prefix_connect_failed)
next
  case (FClose i)
  then show ?thesis by (simp add: grows_refl grows_update on_close_def Let_def)
qed

section \<open>The Map of connected clients\<close>

lemma set_delete_subset: "set (AList.delete k al) \<subseteq> set al"
  by (auto simp add: AList.delete_eq)

lemma set_update_subset: "set (AList.update k v al) \<subseteq> insert (k, v) (set al)"
  by (induction al) auto

text \<open>
  A change of connection \<open>i\<close> that keeps its id and session, while the Map
  loses entries at most.
\<close>

lemma registry_ok_update:
  assumes ok: "registry_ok s"
    and conns: "conns s' = (conns s)[i := c']"
    and same: "i < length (conns s) \<Longrightarrow> clientId c' = clientId (conns s ! i) \<and> mcpServer c' = mcpServer (conns s ! i)"
    and sub: "set (connectedClients s') \<subseteq> set (connectedClients s)"
    and dist: "distinct (map fst (connectedClients s'))"
  shows "registry_ok s'"
  unfolding registry_ok_def
proof (intro conjI ballI)
  show "distinct (map fst (connectedClients s'))" by (rule dist)
  fix x assume x: "x \<in> set (connectedClients s')"
  obtain k e where ke: "x = (k, e)" by (cases x)
  with x sub have "(k, e) \<in> set (connectedClients s)" by auto
  with ok have e: "entry_res e < length (conns s)" "clientId (conns s ! entry_res e) = k"
      "mcpServer (conns s ! entry_res e) = Some (entry_mcpServer e)"
    by (auto simp add: registry_ok_def)
  show "case x of (k, e) \<Rightarrow> entry_res e < length (conns s') \<and>
          clientId (conns s' ! entry_res e) = k \<and>
          mcpServer (conns s' ! entry_res e) = Some (entry_mcpServer e)"
  proof (cases "entry_res e = i")
    case True
    with e same conns ke show ?thesis by simp
  next
    case False
    with e conns ke show ?thesis by simp
  qed
qed

lemma registry_ok_delete:
  assumes "registry_ok s" and "conns s' = (conns s)[i := c']"
    and "i < length (conns s) \<Longrightarrow> clientId c' = clientId (conns s ! i) \<and> mcpServer c' = mcpServer (conns s ! i)"
    and "connectedClients s' = connectedClients s \<or>
         connectedClients s' = AList.delete k (connectedClients s)"
  shows "registry_ok s'"
proof (rule registry_ok_update [OF assms(1,2,3)])
  show "set (connectedClients s') \<subseteq> set (connectedClients s)"
    using assms(4) set_delete_subset [of k "connectedClients s"] by auto
  show "distinct (map fst (connectedClients s'))"
    using assms(1,4) by (auto simp add: registry_ok_def AList.distinct_delete)
qed

lemma clientId_fail_conn [simp]: "clientId (fail_conn msg st c) = clientId c"
  and mcpServer_fail_conn [simp]: "mcpServer (fail_conn msg st c) = mcpServer c"
  by (simp_all add: fail_conn_def)

lemma registry_ok_failed:
  assumes "registry_ok s"
  shows "registry_ok (mcp_failed msg st i s)"
  by (rule registry_ok_delete [OF assms, where i = i and c' = "fail_conn msg st (conns s ! i)"
        and k = "clientId (conns s ! i)"])
     (simp_all add: mcp_failed_def Let_def)

lemma registry_ok_announce:
  assumes ok: "registry_ok s" and i: "i < length (conns s)" and none: "mcpServer (conns s ! i) = None"
  shows "registry_ok (s\<lparr>connectedClients :=
                   AList.update (clientId (conns s ! i))
                     \<lparr>entry_res = i, entry_mcpServer = m, connected = True, timestamp = now\<rparr>
                     (connectedClients s),
                 conns := (conns s)[i := announce m (conns s ! i)]\<rparr>)"
  unfolding registry_ok_def
proof (intro conjI ballI)
  let ?e = "\<lparr>entry_res = i, entry_mcpServer = m, connected = True, timestamp = now\<rparr>"
  let ?s' = "s\<lparr>connectedClients := AList.update (clientId (conns s ! i)) ?e (connectedClients s),
                 conns := (conns s)[i := announce m (conns s ! i)]\<rparr>"
  show "distinct (map fst (connectedClients ?s'))"
    using ok by (simp add: registry_ok_def AList.distinct_update)
  fix x assume "x \<in> set (connectedClients ?s')"
  then have "x = (clientId (conns s ! i), ?e) \<or> x \<in> set (connectedClients s)"
    using set_update_subset [of "clientId (conns s ! i)" ?e "connectedClients s"] by auto
  then show "case x of (k, e) \<Rightarrow> entry_res e < length (conns ?s') \<and>
          clientId (conns ?s' ! entry_res e) = k \<and>
          mcpServer (conns ?s' ! entry_res e) = Some (entry_mcpServer e)"
  proof
    assume "x = (clientId (conns s ! i), ?e)"
    then show ?thesis using i by (simp add: announce_def)
  next
    assume x: "x \<in> set (connectedClients s)"
    obtain k e where ke: "x = (k, e)" by (cases x)
    with x ok have e: "entry_res e < length (conns s)" "clientId (conns s ! entry_res e) = k"
      "mcpServer (conns s ! entry_res e) = Some (entry_mcpServer e)"
      by (auto simp add: registry_ok_def)
    with none have "entry_res e \<noteq> i" by auto
    with e ke show ?thesis by simp
  qed
qed

lemma registry_ok_resumed:
  assumes ok: "registry_ok s" and i: "i < length (conns s)" and none: "mcpServer (conns s ! i) = None"
  shows "registry_ok (mcp_resumed B cfg i m now s)"
proof -
  let ?c = "conns s ! i"
  let ?s1 = "s\<lparr>connectedClients :=
                   AList.update (clientId ?c)
                     \<lparr>entry_res = i, entry_mcpServer = m, connected = True, timestamp = now\<rparr>
                     (connectedClients s),
                 conns := (conns s)[i := announce m ?c]\<rparr>"
  note s1 = registry_ok_announce [OF assms, of m now]
  have same: "registry_ok s'"
    if "conns s' = (conns ?s1)[i := c']" "clientId c' = clientId (announce m ?c)"
       "mcpServer c' = mcpServer (announce m ?c)" "connectedClients s' = connectedClients ?s1" for s' c'
    by (rule registry_ok_delete [OF s1 that(1), where k = "clientId ?c"]) (use that i in simp_all)
  have a: "registry_ok (?s1\<lparr>conns := (conns s)[i := send_empty_tools (announce m ?c)]\<rparr>)"
    by (rule same [where c' = "send_empty_tools (announce m ?c)"])
       (simp_all add: send_empty_tools_def install_close_def)
  have b: "registry_ok (?s1\<lparr>conns := (conns s)[i := (announce m ?c)\<lparr>phase := AwaitConnect\<rparr>]\<rparr>)"
    by (rule same [where c' = "(announce m ?c)\<lparr>phase := AwaitConnect\<rparr>"]) simp_all
  have d: "registry_ok (mcp_failed msg st i ?s1)" for msg st
    by (rule registry_ok_failed [OF s1])
  show ?thesis
  proof (cases "SSEServerTransport_loaded cfg")
    case False
    with a show ?thesis by (simp add: mcp_resumed_def Let_def)
  next
    case True
    show ?thesis
    proof (cases m)
      case Nullish
      with True d show ?thesis by (simp add: mcp_resumed_def Let_def)
    next
      case (Connection srv)
      with True a b show ?thesis by (cases srv) (simp_all add: mcp_resumed_def Let_def)
    qed
  qed
qed

lemma registry_ok_step:
  assumes "full_inv s"
  shows "registry_ok (full_step B cfg ev s)"
proof -
  from assms have ok: "registry_ok s" and cs: "conns_ok s" by (simp_all add: full_inv_def)
  show ?thesis
  proof (cases ev)
    case (FRequest req now uuid up)
    let ?s0 = "s\<lparr>conns := conns s @ [new_conn uuid]\<rparr>"
    have "registry_ok ?s0"
      using ok by (auto simp add: registry_ok_def nth_append)
    then have "registry_ok (mcp_failed msg st (length (conns s)) ?s0)" for msg st
      by (rule registry_ok_failed)
    then show ?thesis
      using FRequest ok \<open>registry_ok ?s0\<close> by (simp add: full_request_def Let_def)
  next
    case (FactoryResolved i m now)
    have "registry_ok (mcp_resumed B cfg i m now s)"
      if "i < length (conns s)" "phase (conns s ! i) = AwaitFactory"
      using conns_okD [OF cs that(1)] that
      by (intro registry_ok_resumed [OF ok]) (simp_all add: fconn_ok_def)
    then show ?thesis using FactoryResolved ok by simp
  next
    case (FactoryRejected i msg st)
    then show ?thesis using ok by (simp add: registry_ok_failed)
  next
    case (FactoryRejectedNullish i)
    then show ?thesis using ok by (simp add: mcp_unhandled_def registry_ok_def)
  next
    case (ConnectRejectedNullish i)
    then show ?thesis using ok by (simp add: connect_failed_nullish_def registry_ok_failed)
  next
    case (ConnectResolved i)
    have "registry_ok (s\<lparr>conns := (conns s)[i := install_close (conns s ! i)]\<rparr>)"
      by (rule registry_ok_delete [OF ok, where i = i and c' = "install_close (conns s ! i)"])
         (simp_all add: install_close_def)
    then show ?thesis using ConnectResolved ok by simp
  next
    case (ConnectRejected i)
    have "registry_ok (s\<lparr>conns := (conns s)[i := connect_failed (conns s ! i)]\<rparr>)"
      by (rule registry_ok_delete [OF ok, where i = i and c' = "connect_failed (conns s ! i)"])
         (simp_all add: connect_failed_def install_close_def)
    then show ?thesis using ConnectRejected ok by simp
  next
    case (FClose i)
    have "registry_ok (on_close i s)"
    proof (cases "closed (conns s ! i)")
      case True
      then show ?thesis using ok by (simp add: on_close_def)
    next
      case False
      show ?thesis
        by (rule registry_ok_delete [OF ok, where i = i and c' = "(conns s ! i)\<lparr>closed := True\<rparr>"
              and k = "clientId (conns s ! i)"])
           (use False in \<open>simp_all add: on_close_def Let_def\<close>)
    qed
    then show ?thesis using FClose ok by simp
  qed
qed

lemma full_inv_step: "full_inv s \<Longrightarrow> full_inv (full_step B cfg ev s)"
  using registry_ok_step [of s B cfg ev] conns_ok_step [of s B cfg ev]
  by (simp add: full_inv_def)

lemma full_inv_run: "full_inv s \<Longrightarrow> full_inv (full_run B cfg evs s)"
  unfolding full_run_def by (induction evs arbitrary: s) (simp_all add: full_inv_step)

lemma full_inv_init: "full_inv full_init"
  using conns_ok_init by (simp add: full_inv_def registry_ok_def full_init_def)

lemma full_step_crashed: "crashed s \<Longrightarrow> full_step B cfg ev s = s"
  by (cases ev) simp_all

lemma fifo_full_step: "fifo (full_streams s) (full_streams (full_step B cfg ev s))"
  using grows_step [of s B cfg ev] by (simp add: fifo_def full_streams_def grows_def)

lemma fifo_update:
  assumes "i < length cs \<Longrightarrow> prefix (written (sres (cs ! i))) (written (sres c'))"
  shows "fifo (simple_streams cs) (simple_streams (cs[i := c']))"
proof (cases "i < length cs")
  case True
  then show ?thesis
    using assms by (auto simp add: fifo_def simple_streams_def nth_list_update)
next
  case False
  then show ?thesis by (simp add: fifo_def simple_streams_def)
qed

lemma fifo_simple_step: "fifo (simple_streams cs) (simple_streams (simple_step B ev cs))"
proof (cases ev)
  case (SRequest req now ok)
  have "fifo (simple_streams cs) (simple_streams cs)" "fifo (simple_streams cs) (simple_streams (cs @ [c]))" for c
    by (simp_all add: fifo_def simple_streams_def nth_append)
  then show ?thesis using SRequest by (simp add: simple_request_def Let_def)
next
  case (STick i now ok)
  have "fifo (simple_streams cs) (simple_streams (cs[i := heartbeat_tick now ok (cs ! i)]))"
    by (rule fifo_update) (simp add: heartbeat_tick_def res_write_def)
  then show ?thesis using STick by (simp add: fifo_def)
next
  case (SClose i)
  have "fifo (simple_streams cs) (simple_streams (cs[i := clear_heartbeat (cs ! i)]))"
    by (rule fifo_update) (simp add: clear_heartbeat_def)
  then show ?thesis using SClose by (simp add: fifo_def)
next
  case (SError i)
  have "fifo (simple_streams cs) (simple_streams (cs[i := clear_heartbeat (cs ! i)]))"
    by (rule fifo_update) (simp add: clear_heartbeat_def)
  then show ?thesis using SError by (simp add: fifo_def)
next
  case (SRequestCut req now n)
  have "fifo (simple_streams cs) (simple_streams cs)" "fifo (simple_streams cs) (simple_streams (cs @ [c]))" for c
    by (simp_all add: fifo_def simple_streams_def nth_append)
  then show ?thesis using SRequestCut by (simp add: simple_request_def Let_def)
qed

lemma full_frames:
  assumes "c \<in> set (conns (full_run B cfg evs full_init))"
  shows "fconn_ok c"
  using full_inv_run [OF full_inv_init, of B cfg evs] assms
  by (simp add: full_inv_def conns_ok_def)

lemma simple_frames:
  assumes "c \<in> set (simple_run B evs [])"
  shows "sconn_ok c"
  using sconns_ok_run [of "[]" B evs] assms by simp

lemma full_frame_shape: "full_frame f \<Longrightarrow> is_notification f \<or> is_null_error f"
  by (auto simp add: full_frame_def is_method_def)

section \<open>The shape of a stream\<close>

lemma wire_tool_stubs: "wire_elems (map tool_stub names) = map tool_stub names"
  by (induction names) (simp_all add: tool_stub_def)

lemma wire_fallback_frame:
  "wire (JObj [(''jsonrpc'', JStr ''2.0''), (''method'', JStr ''tools/list''),
               (''params'', JObj [(''tools'', fallback_tools m)])]) =
   tools_frame (fallback_tools m)"
  by (simp add: fallback_tools_def wire_tool_stubs tools_frame_def
      split: option.splits mcp_server.splits tool_handlers.splits)

lemma written_announce:
  "written (fres (announce m c)) = written (fres c) @ [initialized_frame]"
  by (simp add: announce_def sendMCPNotification_def res_write_def initialized_frame_def)

lemma written_send_empty_tools:
  "written (fres (send_empty_tools c)) = written (fres c) @ [tools_frame (JArr [])]"
  by (simp add: send_empty_tools_def install_close_def sendMCPNotification_def res_write_def
      tools_frame_def)

lemma written_connect_failed:
  "written (fres (connect_failed c)) =
     written (fres c) @ [tools_frame (fallback_tools (mcpServer c))]"
  by (simp add: connect_failed_def install_close_def sendMCPNotification_def res_write_def
      wire_fallback_frame del: wire.simps)

lemma written_fail_conn:
  "headersSent (fres c) \<Longrightarrow>
   written (fres (fail_conn msg stack c)) =
     written (fres c) @
     [JObj [(''jsonrpc'', JStr ''2.0''), (''id'', JNull),
            (''error'', JObj [(''code'', JNum (- 32603)),
                              (''message'', wire (js_or msg (JStr ''Internal error''))),
                              (''data'', JObj (wire_props [(''stack'', stack)]))])]]"
  using js_or_defined [of "JStr ''Internal error''" msg]
  by (simp add: fail_conn_def written_sendMCPError own_prop_def js_or_def)

lemma null_error_literal:
  "is_null_error (JObj [(''jsonrpc'', JStr ''2.0''), (''id'', JNull), (''error'', e)])"
  by (simp add: is_null_error_def is_response_def has_field_def field_def own_prop_def)

lemma stream_ok_new: "full_stream_ok (new_conn uuid)"
  by (simp add: full_stream_ok_def new_conn_def setupSSEHeaders_def writeHead_def cors_res_def)

lemma stream_ok_fail_conn:
  assumes "written (fres c) = [] \<or> written (fres c) = [initialized_frame]"
    and "\<not> closeListener c" and "headersSent (fres c)"
  shows "full_stream_ok (fail_conn msg stack c)"
  using assms written_fail_conn [OF assms(3), of msg stack]
  by (auto simp add: full_stream_ok_def null_error_literal fail_conn_def)

lemma stream_ok_await_connect:
  assumes "written (fres c) = []"
  shows "full_stream_ok ((announce m c)\<lparr>phase := AwaitConnect\<rparr>)"
  using assms written_announce [of m c] by (simp add: full_stream_ok_def announce_def)

lemma stream_ok_empty_tools:
  assumes "written (fres c) = []"
  shows "full_stream_ok (send_empty_tools (announce m c))"
  using assms written_announce [of m c] written_send_empty_tools [of "announce m c"]
  by (simp add: full_stream_ok_def send_empty_tools_def install_close_def)

lemma stream_ok_install_close:
  assumes "full_stream_ok c" and "phase c = AwaitConnect"
  shows "full_stream_ok (install_close c)"
  using assms by (simp add: full_stream_ok_def install_close_def)

lemma stream_ok_connect_failed:
  assumes "full_stream_ok c" and "phase c = AwaitConnect"
  shows "full_stream_ok (connect_failed c)"
  using assms written_connect_failed [of c]
  by (simp add: full_stream_ok_def connect_failed_def install_close_def)

lemma stream_ok_closed: "full_stream_ok c \<Longrightarrow> full_stream_ok (c\<lparr>closed := b\<rparr>)"
  by (cases "phase c") (simp_all add: full_stream_ok_def)

lemma streams_okD: "streams_ok s \<Longrightarrow> i < length (conns s) \<Longrightarrow> full_stream_ok (conns s ! i)"
  by (simp add: streams_ok_def)

lemma streams_ok_update:
  "streams_ok s \<Longrightarrow> full_stream_ok c' \<Longrightarrow> conns s' = (conns s)[i := c'] \<Longrightarrow> streams_ok s'"
  unfolding streams_ok_def using set_update_all [of "conns s" full_stream_ok c' i] by simp


lemma streams_ok_failed:
  assumes "streams_ok s" and "i < length (conns s)"
    and "written (fres (conns s ! i)) = [] \<or> written (fres (conns s ! i)) = [initialized_frame]"
    and "\<not> closeListener (conns s ! i)" and "headersSent (fres (conns s ! i))"
  shows "streams_ok (mcp_failed msg st i s)"
  by (rule streams_ok_update [OF assms(1) stream_ok_fail_conn [OF assms(3,4,5)]])
     (simp add: mcp_failed_def Let_def)

lemma streams_ok_resumed:
  assumes ok: "streams_ok s" and c: "conns_ok s"
    and i: "i < length (conns s)" and ph: "phase (conns s ! i) = AwaitFactory"
  shows "streams_ok (mcp_resumed B cfg i m now s)"
proof -
  let ?c = "conns s ! i"
  from conns_okD [OF c i] ph
  have w: "written (fres ?c) = []" "\<not> closeListener ?c" "headersSent (fres ?c)"
    by (simp_all add: fconn_ok_def)
  have a: "streams_ok s'" if "conns s' = (conns s)[i := send_empty_tools (announce m ?c)]" for s'
    by (rule streams_ok_update [OF ok stream_ok_empty_tools [OF w(1)] that])
  have b: "streams_ok s'" if "conns s' = (conns s)[i := (announce m ?c)\<lparr>phase := AwaitConnect\<rparr>]" for s'
    by (rule streams_ok_update [OF ok stream_ok_await_connect [OF w(1)] that])
  have "full_stream_ok (fail_conn msg st (announce m ?c))" for msg st
    using w written_announce [of m ?c]
    by (intro stream_ok_fail_conn) (simp_all add: announce_def headersSent_def)
  then have d: "streams_ok s'" if "conns s' = (conns s)[i := fail_conn msg st (announce m ?c)]" for s' msg st
    using streams_ok_update [OF ok _ that] by blast
  show ?thesis
  proof (cases "SSEServerTransport_loaded cfg")
    case False
    then show ?thesis by (intro a) (simp add: mcp_resumed_def Let_def)
  next
    case True
    show ?thesis
    proof (cases m)
      case Nullish
      with True i show ?thesis
        by (intro d) (simp add: mcp_resumed_def Let_def mcp_failed_def)
    next
      case (Connection srv)
      show ?thesis
      proof (cases srv)
        case None
        with True Connection show ?thesis
          by (intro a) (simp add: mcp_resumed_def Let_def)
      next
        case (Some th)
        with True Connection show ?thesis
          by (intro b) (simp add: mcp_resumed_def Let_def)
      qed
    qed
  qed
qed

lemma streams_ok_step:
  assumes ok: "streams_ok s" and c: "conns_ok s"
  shows "streams_ok (full_step B cfg ev s)"
proof (cases "crashed s")
  case True
  then show ?thesis using ok by (simp add: full_step_crashed)
next
  case alive: False
  show ?thesis
  proof (cases ev)
    case (FRequest req now uuid up)
    let ?s0 = "s\<lparr>conns := conns s @ [new_conn uuid]\<rparr>"
    have new: "streams_ok ?s0"
      using ok by (simp add: streams_ok_def stream_ok_new)
    have "streams_ok (mcp_failed msg st (length (conns s)) ?s0)" for msg st
      by (rule streams_ok_failed [OF new])
         (simp_all add: new_conn_def setupSSEHeaders_def writeHead_def cors_res_def headersSent_def)
    then show ?thesis
      using FRequest ok new by (simp add: full_request_def Let_def)
  next
    case (FactoryResolved i m now)
    then show ?thesis using streams_ok_resumed [OF ok c] ok by simp
  next
    case (FactoryRejected i msg st)
    have "streams_ok (mcp_failed msg st i s)"
      if "i < length (conns s)" "phase (conns s ! i) = AwaitFactory"
      using conns_okD [OF c that(1)] that
      by (intro streams_ok_failed [OF ok]) (simp_all add: fconn_ok_def)
    then show ?thesis using FactoryRejected ok by simp
  next
    case (FactoryRejectedNullish i)
    then show ?thesis using ok by (simp add: mcp_unhandled_def streams_ok_def)
  next
    case (ConnectResolved i)
    have "streams_ok (s\<lparr>conns := (conns s)[i := install_close (conns s ! i)]\<rparr>)"
      if "i < length (conns s)" "phase (conns s ! i) = AwaitConnect"
      by (rule streams_ok_update [OF ok stream_ok_install_close [OF streams_okD [OF ok that(1)] that(2)]])
         simp
    then show ?thesis using ConnectResolved ok by simp
  next
    case (ConnectRejected i)
    have "streams_ok (s\<lparr>conns := (conns s)[i := connect_failed (conns s ! i)]\<rparr>)"
      if "i < length (conns s)" "phase (conns s ! i) = AwaitConnect"
      by (rule streams_ok_update [OF ok stream_ok_connect_failed [OF streams_okD [OF ok that(1)] that(2)]])
         simp
    then show ?thesis using ConnectRejected ok by simp
  next
    case (ConnectRejectedNullish i)
    have "streams_ok (mcp_failed msg st i s)"
      if "i < length (conns s)" "phase (conns s ! i) = AwaitConnect" for msg st
      using conns_okD [OF c that(1)] streams_okD [OF ok that(1)] that
      by (intro streams_ok_failed [OF ok]) (simp_all add: fconn_ok_def full_stream_ok_def)
    then show ?thesis using ConnectRejectedNullish ok by (simp add: connect_failed_nullish_def)
  next
    case (FClose i)
    have "streams_ok (on_close i s)" if "i < length (conns s)"
    proof (cases "closed (conns s ! i)")
      case True
      then show ?thesis using ok by (simp add: on_close_def)
    next
      case False
      show ?thesis
        by (rule streams_ok_update [OF ok stream_ok_closed [OF streams_okD [OF ok that], of True]])
           (use False in \<open>simp add: on_close_def Let_def\<close>)
    qed
    then show ?thesis using FClose ok by simp
  qed
qed

lemma streams_ok_run:
  "streams_ok s \<Longrightarrow> conns_ok s \<Longrightarrow> streams_ok (full_run B cfg evs s)"
  unfolding full_run_def
proof (induction evs arbitrary: s)
  case Nil
  then show ?case by simp
next
  case (Cons ev evs)
  from Cons.IH [OF streams_ok_step [OF Cons.prems] conns_ok_step [OF Cons.prems(2)]]
  show ?case by simp
qed

lemma full_streams_shape:
  assumes "c \<in> set (conns (full_run B cfg evs full_init))"
  shows "full_stream_ok c"
  using streams_ok_run [of full_init B cfg evs] conns_ok_init assms
  by (simp add: streams_ok_def full_init_def)

lemma initMessage_frame: "initMessage = initialized_frame"
  by (simp add: initMessage_def initialized_frame_def)

lemma serverInfo_frame: "serverInfo = server_info_frame (JArr PLAYWRIGHT_TOOLS)"
  by (simp add: serverInfo_def server_info_frame_def)

lemma toolsList_frame: "toolsList = tools_frame (JArr PLAYWRIGHT_TOOLS)"
  by (simp add: toolsList_def tools_frame_def)

lemma sconn_ok_stream: "sconn_ok c \<Longrightarrow> simple_stream_ok (written (sres c))"
  by (auto simp add: sconn_ok_def simple_stream_ok_def initMessage_frame serverInfo_frame
      toolsList_frame)

section \<open>Frames, their order and their kinds\<close>

lemma handshake_steps:
  assumes r: "r = full_run B cfg evs full_init" and alive: "\<not> crashed r"
    and i: "i < length (conns r)"
  shows "(phase (conns r ! i) = AwaitFactory \<longrightarrow>
            written (fres (conns (full_step B cfg (FactoryResolved i (Connection srv) now) r) ! i)) =
              (if SSEServerTransport_loaded cfg \<and> srv \<noteq> None then [initialized_frame]
               else [initialized_frame, tools_frame (JArr [])])) \<and>
         (phase (conns r ! i) = AwaitConnect \<longrightarrow>
            written (fres (conns (full_step B cfg (ConnectResolved i) r) ! i)) =
              [initialized_frame] \<and>
            written (fres (conns (full_step B cfg (ConnectRejected i) r) ! i)) =
              [initialized_frame, tools_frame (fallback_tools (mcpServer (conns r ! i)))])"
proof -
  have c: "conns r ! i \<in> set (conns (full_run B cfg evs full_init))"
    using i by (simp add: r)
  from full_streams_shape [OF c]
  have w: "phase (conns r ! i) = AwaitFactory \<Longrightarrow> written (fres (conns r ! i)) = []"
    "phase (conns r ! i) = AwaitConnect \<Longrightarrow> written (fres (conns r ! i)) = [initialized_frame]"
    by (simp_all add: full_stream_ok_def)
  show ?thesis
    using alive i w
    by (cases srv)
       (simp_all add: mcp_resumed_def Let_def written_announce written_send_empty_tools
          written_connect_failed install_close_def)
qed

text \<open>
  C4, as the code has it. After any sequence of events, the stream of every
  connection of the full server has the shape its handler's stand allows
  (\<open>full_stream_ok\<close>): the initialized notification is the first frame the
  handler writes once the session exists, a \<^verbatim>\<open>tools/list\<close> notification follows
  it only where the handler falls back, and a failed handshake leaves an error
  response. When the factory gives a session, the handler writes the
  initialized notification and, without the SDK transport or without
  \<^verbatim>\<open>mcpServer.server\<close>, a \<^verbatim>\<open>tools/list\<close> notification with an empty list; when
  \<^verbatim>\<open>connect\<close> succeeds it writes no \<^verbatim>\<open>tools/list\<close>, and when \<^verbatim>\<open>connect\<close> fails (with
  a value other than \<^verbatim>\<open>null\<close> and \<^verbatim>\<open>undefined\<close>) it writes one with the stubs of
  the session's tool handlers. A stream of the simple server is a handshake cut
  off by a write that threw (empty, initialized alone, or initialized and
  \<^verbatim>\<open>server/info\<close>), or it starts with initialized, \<^verbatim>\<open>server/info\<close> and \<^verbatim>\<open>tools/list\<close>,
  the last two carrying the static catalog and only heartbeats behind them;
  these three are the frames of every handshake whose writes succeed, and a
  handshake whose write after the \<open>n\<close>-th throws leaves the first \<open>n\<close> of them. On no stream does \<^verbatim>\<open>tools/list\<close> stand before initialized. Every step
  of either server keeps the frames already written to a connection, in their
  order, and writes new ones behind them; that the transport delivers them in
  this order is not part of the model.
\<close>

theorem handshake_streams:
  assumes "r = full_run B cfg evs full_init"
  shows "(\<forall>c \<in> set (conns r). full_stream_ok c \<and> init_first (written (fres c))) \<and>
   (\<not> crashed r \<and> i < length (conns r) \<and> phase (conns r ! i) = AwaitFactory \<longrightarrow>
      written (fres (conns (full_step B cfg (FactoryResolved i (Connection srv) now) r) ! i)) =
        (if SSEServerTransport_loaded cfg \<and> srv \<noteq> None then [initialized_frame]
         else [initialized_frame, tools_frame (JArr [])])) \<and>
   (\<not> crashed r \<and> i < length (conns r) \<and> phase (conns r ! i) = AwaitConnect \<longrightarrow>
      written (fres (conns (full_step B cfg (ConnectResolved i) r) ! i)) = [initialized_frame] \<and>
      written (fres (conns (full_step B cfg (ConnectRejected i) r) ! i)) =
        [initialized_frame, tools_frame (fallback_tools (mcpServer (conns r ! i)))]) \<and>
   (\<forall>c \<in> set (simple_run B sevs []).
      simple_stream_ok (written (sres c)) \<and> init_first (written (sres c))) \<and>
   (req_method req \<noteq> ''OPTIONS'' \<and> req_url req = ''/mcp'' \<longrightarrow>
      written (snd (simple_request B now True req cs)) =
        [JObj [(''jsonrpc'', JStr ''2.0''), (''method'', JStr ''notifications/initialized''),
               (''params'', JObj [])],
         JObj [(''jsonrpc'', JStr ''2.0''), (''method'', JStr ''server/info''),
               (''params'', JObj [(''name'', JStr ''simple-playwright-mcp''),
                                  (''version'', JStr ''1.0.0''),
                                  (''capabilities'', JArr [JStr ''tools'']),
                                  (''tools'', JArr PLAYWRIGHT_TOOLS)])],
         JObj [(''jsonrpc'', JStr ''2.0''), (''method'', JStr ''tools/list''),
               (''params'', JObj [(''tools'', JArr PLAYWRIGHT_TOOLS)])]]) \<and>
   (req_method req \<noteq> ''OPTIONS'' \<and> req_url req = ''/mcp'' \<and> n < 3 \<longrightarrow>
      simple_streams (simple_step B (SRequestCut req now n) cs) =
        simple_streams cs @
          [take n [initialized_frame, server_info_frame (JArr PLAYWRIGHT_TOOLS),
                   tools_frame (JArr PLAYWRIGHT_TOOLS)]]) \<and>
   fifo (full_streams s) (full_streams (full_step B cfg ev s)) \<and>
   fifo (simple_streams cs) (simple_streams (simple_step B sev cs))"
proof (intro conjI ballI impI)
  fix c assume "c \<in> set (conns r)"
  then have c: "c \<in> set (conns (full_run B cfg evs full_init))"
    by (simp add: assms)
  from full_streams_shape [OF c] show "full_stream_ok c" .
  from full_frames [OF c] show "init_first (written (fres c))"
    by (simp add: fconn_ok_def)
next
  assume "\<not> crashed r \<and> i < length (conns r) \<and> phase (conns r ! i) = AwaitFactory"
  then show "written (fres (conns (full_step B cfg (FactoryResolved i (Connection srv) now) r) ! i)) =
        (if SSEServerTransport_loaded cfg \<and> srv \<noteq> None then [initialized_frame]
         else [initialized_frame, tools_frame (JArr [])])"
    using handshake_steps [OF assms, of i srv now] by blast
next
  assume a: "\<not> crashed r \<and> i < length (conns r) \<and> phase (conns r ! i) = AwaitConnect"
  then show "written (fres (conns (full_step B cfg (ConnectResolved i) r) ! i)) = [initialized_frame]"
    using handshake_steps [OF assms, of i srv now] by blast
  from a show "written (fres (conns (full_step B cfg (ConnectRejected i) r) ! i)) =
        [initialized_frame, tools_frame (fallback_tools (mcpServer (conns r ! i)))]"
    using handshake_steps [OF assms, of i srv now] by blast
next
  fix c assume c: "c \<in> set (simple_run B sevs [])"
  from simple_frames [OF c] show "simple_stream_ok (written (sres c))"
    by (rule sconn_ok_stream)
  from simple_frames [OF c] show "init_first (written (sres c))"
    by (rule sconn_ok_init_first)
next
  assume "req_method req \<noteq> ''OPTIONS'' \<and> req_url req = ''/mcp''"
  then show "written (snd (simple_request B now True req cs)) =
        [JObj [(''jsonrpc'', JStr ''2.0''), (''method'', JStr ''notifications/initialized''),
               (''params'', JObj [])],
         JObj [(''jsonrpc'', JStr ''2.0''), (''method'', JStr ''server/info''),
               (''params'', JObj [(''name'', JStr ''simple-playwright-mcp''),
                                  (''version'', JStr ''1.0.0''),
                                  (''capabilities'', JArr [JStr ''tools'']),
                                  (''tools'', JArr PLAYWRIGHT_TOOLS)])],
         JObj [(''jsonrpc'', JStr ''2.0''), (''method'', JStr ''tools/list''),
               (''params'', JObj [(''tools'', JArr PLAYWRIGHT_TOOLS)])]]"
    by (simp add: simple_request_def Let_def written_simple_mcp initMessage_def serverInfo_def
        toolsList_def)
next
  assume "req_method req \<noteq> ''OPTIONS'' \<and> req_url req = ''/mcp'' \<and> n < 3"
  then show "simple_streams (simple_step B (SRequestCut req now n) cs) =
        simple_streams cs @
          [take n [initialized_frame, server_info_frame (JArr PLAYWRIGHT_TOOLS),
                   tools_frame (JArr PLAYWRIGHT_TOOLS)]]"
    by (simp add: simple_streams_def written_simple_mcp_cut initMessage_frame serverInfo_frame
        toolsList_frame)
qed (rule fifo_full_step fifo_simple_step)+

lemma null_error_one_of: "is_null_error f \<Longrightarrow> has_field f ''result'' \<noteq> has_field f ''error''"
  by (auto simp add: is_null_error_def)

lemma notification_no_response: "is_notification f \<Longrightarrow> \<not> is_response f"
  by (auto simp add: is_notification_def is_response_def)

text \<open>
  C7. Every response frame on a stream of either server, after any sequence
  of events, carries exactly one of \<^verbatim>\<open>result\<close> and \<^verbatim>\<open>error\<close>. The frame of
  \<^verbatim>\<open>sendMCPError\<close> carries \<^verbatim>\<open>error\<close> and no \<^verbatim>\<open>result\<close>; the frame of
  \<^verbatim>\<open>sendMCPResponse\<close>, which no handler calls, carries \<^verbatim>\<open>result\<close> and no
  \<^verbatim>\<open>error\<close> for every result that \<^verbatim>\<open>JSON.stringify\<close> keeps.
\<close>

theorem response_result_xor_error:
  "(\<forall>c \<in> set (conns (full_run B cfg evs full_init)). \<forall>f \<in> set (written (fres c)).
      is_response f \<longrightarrow> has_field f ''result'' \<noteq> has_field f ''error'') \<and>
   (\<forall>c \<in> set (simple_run B sevs []). \<forall>f \<in> set (written (sres c)).
      is_response f \<longrightarrow> has_field f ''result'' \<noteq> has_field f ''error'') \<and>
   has_field (last (written (sendMCPError res rid e))) ''error'' \<and>
   \<not> has_field (last (written (sendMCPError res rid e))) ''result'' \<and>
   (result \<noteq> JUndefined \<longrightarrow>
      has_field (last (written (sendMCPResponse res rid result))) ''result'' \<and>
      \<not> has_field (last (written (sendMCPResponse res rid result))) ''error'')"
proof (intro conjI ballI impI)
  fix c f assume "c \<in> set (conns (full_run B cfg evs full_init))" "f \<in> set (written (fres c))"
    and r: "is_response f"
  with full_frames have "full_frame f" by (auto simp add: fconn_ok_def list_all_iff)
  with r show "has_field f ''result'' \<noteq> has_field f ''error''"
    using full_frame_shape null_error_one_of notification_no_response by blast
next
  fix c f assume "c \<in> set (simple_run B sevs [])" "f \<in> set (written (sres c))" "is_response f"
  with simple_frames sconn_ok_notifications notification_no_response
  show "has_field f ''result'' \<noteq> has_field f ''error''" by blast
qed (auto simp add: sendMCPError_def sendMCPResponse_def res_write_def has_field_def)

text \<open>
  C1, as the code has it. Neither server reads request frames. The body of a
  request to the full server, and of a request for \<^verbatim>\<open>/mcp\<close> to the simple one,
  has no effect: the request opens a new stream. The frames on the streams of
  the full server are notifications and error responses whose id is \<^verbatim>\<open>null\<close>,
  those of the simple server are notifications: no frame echoes the id of a
  request. \<^verbatim>\<open>sendMCPResponse\<close>, which no handler calls, writes exactly one frame,
  with the id it is given.
\<close>

theorem streams_carry_no_answer:
  "(\<forall>c \<in> set (conns (full_run B cfg evs full_init)). \<forall>f \<in> set (written (fres c)).
      is_notification f \<or> is_null_error f) \<and>
   (\<forall>c \<in> set (simple_run B sevs []). \<forall>f \<in> set (written (sres c)). is_notification f) \<and>
   full_step B cfg (FRequest (req\<lparr>req_chunks := body\<rparr>) now uuid uptime) s =
     full_step B cfg (FRequest req now uuid uptime) s \<and>
   (req_url req = ''/mcp'' \<longrightarrow>
      simple_step B (SRequest (req\<lparr>req_chunks := body\<rparr>) now ok) cs =
        simple_step B (SRequest req now ok) cs) \<and>
   length (written (sendMCPResponse res rid result)) = Suc (length (written res)) \<and>
   (rid \<noteq> JUndefined \<longrightarrow> field (last (written (sendMCPResponse res rid result))) ''id'' = wire rid)"
proof (intro conjI ballI impI)
  fix c f assume "c \<in> set (conns (full_run B cfg evs full_init))" "f \<in> set (written (fres c))"
  with full_frames have "full_frame f" by (auto simp add: fconn_ok_def list_all_iff)
  then show "is_notification f \<or> is_null_error f" by (rule full_frame_shape)
next
  fix c f assume "c \<in> set (simple_run B sevs [])" "f \<in> set (written (sres c))"
  with simple_frames sconn_ok_notifications show "is_notification f" by blast
qed (auto simp add: full_request_def simple_request_def Let_def sendMCPResponse_def res_write_def
       field_def own_prop_def)

section \<open>Concrete runs\<close>

text \<open>The definitions a concrete run unfolds to.\<close>

lemmas full_eval =
  full_run_def full_request_def full_init_def new_conn_def setupSSEHeaders_def mcp_resumed_def
  mcp_failed_def fail_conn_def announce_def send_empty_tools_def install_close_def
  connect_failed_def fallback_tools_def tool_stub_def on_close_def sendMCPNotification_def
  sendMCPError_def sendMCPResponse_def res_write_def writeHead_def headersSent_def cors_res_def
  sse_headers_def http_get_def http_post_def demo_config_def demo_builtins_def own_prop_def
  js_or_def Let_def full_health_def json_headers_def demo_session_def full_streams_def
  initialized_frame_def demo_error_frame_def mcp_unhandled_def connect_failed_nullish_def

lemmas simple_eval =
  simple_run_def simple_request_def simple_mcp_def simple_mcp_cut_def heartbeat_tick_def
  clear_heartbeat_def res_write_def writeHead_def headersSent_def cors_res_def sse_headers_def http_get_def
  http_post_def Let_def wire_initMessage wire_serverInfo wire_toolsList wire_heartbeat
  simple_streams_def

lemmas frame_eval =
  is_method_def is_notification_def is_response_def is_null_error_def has_field_def field_def
  own_prop_def init_first_def initMessage_def serverInfo_def toolsList_def heartbeat_def

theorem handshake_streams_witness:
  "full_stream_ok (conns (full_run demo_builtins demo_config
      [FRequest (http_get ''/mcp'') ''2025-01-01T00:00:00.000Z'' ''c1'' 1,
       FactoryResolved 0 demo_session ''2025-01-01T00:00:01.000Z'',
       ConnectRejected 0] full_init) ! 0) \<and>
   init_first (written (fres (conns (full_run demo_builtins demo_config
      [FRequest (http_get ''/mcp'') ''2025-01-01T00:00:00.000Z'' ''c1'' 1,
       FactoryResolved 0 demo_session ''2025-01-01T00:00:01.000Z'',
       ConnectRejected 0] full_init) ! 0))) \<and>
   \<not> crashed (full_run demo_builtins demo_config
      [FRequest (http_get ''/mcp'') ''2025-01-01T00:00:00.000Z'' ''c1'' 1] full_init) \<and>
   phase (conns (full_run demo_builtins demo_config
      [FRequest (http_get ''/mcp'') ''2025-01-01T00:00:00.000Z'' ''c1'' 1] full_init) ! 0) =
     AwaitFactory \<and>
   written (fres (conns (full_step demo_builtins demo_config
      (FactoryResolved 0 demo_session ''2025-01-01T00:00:01.000Z'')
      (full_run demo_builtins demo_config
        [FRequest (http_get ''/mcp'') ''2025-01-01T00:00:00.000Z'' ''c1'' 1] full_init)) ! 0)) =
     [initialized_frame] \<and>
   phase (conns (full_run demo_builtins demo_config
      [FRequest (http_get ''/mcp'') ''2025-01-01T00:00:00.000Z'' ''c1'' 1,
       FactoryResolved 0 demo_session ''2025-01-01T00:00:01.000Z''] full_init) ! 0) =
     AwaitConnect \<and>
   written (fres (conns (full_step demo_builtins demo_config (ConnectResolved 0)
      (full_run demo_builtins demo_config
        [FRequest (http_get ''/mcp'') ''2025-01-01T00:00:00.000Z'' ''c1'' 1,
         FactoryResolved 0 demo_session ''2025-01-01T00:00:01.000Z''] full_init)) ! 0)) =
     [initialized_frame] \<and>
   written (fres (conns (full_step demo_builtins demo_config (ConnectRejected 0)
      (full_run demo_builtins demo_config
        [FRequest (http_get ''/mcp'') ''2025-01-01T00:00:00.000Z'' ''c1'' 1,
         FactoryResolved 0 demo_session ''2025-01-01T00:00:01.000Z''] full_init)) ! 0)) =
     [initialized_frame, tools_frame (JArr [tool_stub ''browser_navigate''])] \<and>
   simple_stream_ok (written (sres (simple_run demo_builtins
      [SRequest (http_get ''/mcp'') ''2025-01-01T00:00:00.000Z'' True,
       STick 0 ''2025-01-01T00:00:30.000Z'' True] [] ! 0))) \<and>
   init_first (written (sres (simple_run demo_builtins
      [SRequest (http_get ''/mcp'') ''2025-01-01T00:00:00.000Z'' True,
       STick 0 ''2025-01-01T00:00:30.000Z'' True] [] ! 0))) \<and>
   req_method (http_get ''/mcp'') \<noteq> ''OPTIONS'' \<and> req_url (http_get ''/mcp'') = ''/mcp'' \<and>
   written (snd (simple_request demo_builtins ''2025-01-01T00:00:00.000Z'' True (http_get ''/mcp'') [])) =
     [initialized_frame, server_info_frame (JArr PLAYWRIGHT_TOOLS),
      tools_frame (JArr PLAYWRIGHT_TOOLS)] \<and>
   simple_streams (simple_step demo_builtins
      (SRequestCut (http_get ''/mcp'') ''2025-01-01T00:00:00.000Z'' 1) []) =
     [[initialized_frame]] \<and>
   fifo (full_streams (full_run demo_builtins demo_config
      [FRequest (http_get ''/mcp'') ''2025-01-01T00:00:00.000Z'' ''c1'' 1,
       FactoryResolved 0 demo_session ''2025-01-01T00:00:01.000Z''] full_init))
     (full_streams (full_step demo_builtins demo_config (ConnectRejected 0)
       (full_run demo_builtins demo_config
      [FRequest (http_get ''/mcp'') ''2025-01-01T00:00:00.000Z'' ''c1'' 1,
       FactoryResolved 0 demo_session ''2025-01-01T00:00:01.000Z''] full_init))) \<and>
   fifo (simple_streams (simple_run demo_builtins
      [SRequest (http_get ''/mcp'') ''2025-01-01T00:00:00.000Z'' True] []))
     (simple_streams (simple_step demo_builtins (STick 0 ''2025-01-01T00:00:30.000Z'' True)
        (simple_run demo_builtins
      [SRequest (http_get ''/mcp'') ''2025-01-01T00:00:00.000Z'' True] [])))"
  using handshake_streams [OF refl, where B = demo_builtins and cfg = demo_config
      and evs = "[FRequest (http_get ''/mcp'') ''2025-01-01T00:00:00.000Z'' ''c1'' 1,
        FactoryResolved 0 demo_session ''2025-01-01T00:00:01.000Z'',
        ConnectRejected 0]"
      and i = 0 and srv = None and sevs = "[SRequest (http_get ''/mcp'') ''2025-01-01T00:00:00.000Z'' True,
        STick 0 ''2025-01-01T00:00:30.000Z'' True]"
      and req = "http_get ''/mcp''" and now = "''2025-01-01T00:00:00.000Z''" and cs = "[]"
      and n = 1
      and s = "full_run demo_builtins demo_config
        [FRequest (http_get ''/mcp'') ''2025-01-01T00:00:00.000Z'' ''c1'' 1,
         FactoryResolved 0 demo_session ''2025-01-01T00:00:01.000Z''] full_init"
      and ev = "ConnectRejected 0"
      and sev = "STick 0 ''2025-01-01T00:00:30.000Z'' True"]
    handshake_streams [OF refl, where B = demo_builtins and cfg = demo_config
      and evs = "[FRequest (http_get ''/mcp'') ''2025-01-01T00:00:00.000Z'' ''c1'' 1]"
      and i = 0 and srv = "Some (Handlers [''browser_navigate''])"
      and now = "''2025-01-01T00:00:01.000Z''" and sevs = "[]" and req = "http_get ''/mcp''"
      and n = 1
      and cs = "simple_run demo_builtins
        [SRequest (http_get ''/mcp'') ''2025-01-01T00:00:00.000Z'' True] []"
      and s = full_init and ev = "ConnectRejected 0"
      and sev = "STick 0 ''2025-01-01T00:00:30.000Z'' True"]
    handshake_streams [OF refl, where B = demo_builtins and cfg = demo_config
      and evs = "[FRequest (http_get ''/mcp'') ''2025-01-01T00:00:00.000Z'' ''c1'' 1,
        FactoryResolved 0 demo_session ''2025-01-01T00:00:01.000Z'']"
      and i = 0 and srv = None and now = "''2025-01-01T00:00:01.000Z''" and sevs = "[]"
      and req = "http_get ''/mcp''" and cs = "[]" and n = 1 and s = full_init
      and ev = "ConnectRejected 0"
      and sev = "STick 0 ''2025-01-01T00:00:30.000Z'' True"]
  by (simp add: full_eval simple_eval tools_frame_def server_info_frame_def initMessage_def
      serverInfo_def toolsList_def heartbeat_def wire_tools)

text \<open>
  Two streams of the full server that a client was given with status 200. On
  the first the session is created and \<^verbatim>\<open>connect\<close> succeeds: the handshake is
  complete, the \<^verbatim>\<open>close\<close> listener installed, and the stream holds the initialized
  notification and no \<^verbatim>\<open>tools/list\<close>. On the second the factory fails: the stream
  holds an error response and neither notification.
\<close>

theorem stream_without_tools_list_counterexample:
  "full_streams (full_run demo_builtins demo_config
      [FRequest (http_get ''/mcp'') ''2025-01-01T00:00:00.000Z'' ''c1'' 1,
       FactoryResolved 0 demo_session ''2025-01-01T00:00:01.000Z'',
       ConnectResolved 0] full_init) = [[initialized_frame]] \<and>
   closeListener (conns (full_run demo_builtins demo_config
      [FRequest (http_get ''/mcp'') ''2025-01-01T00:00:00.000Z'' ''c1'' 1,
       FactoryResolved 0 demo_session ''2025-01-01T00:00:01.000Z'',
       ConnectResolved 0] full_init) ! 0) \<and>
   full_streams (full_run demo_builtins demo_config
      [FRequest (http_get ''/mcp'') ''2025-01-01T00:00:00.000Z'' ''c1'' 1,
       FactoryRejected 0 (JStr ''spawn chrome ENOENT'') (JStr ''Error: spawn chrome ENOENT'')]
      full_init) = [[demo_error_frame]]"
  by (simp add: full_eval)

theorem response_result_xor_error_witness:
  "written (fres (conns (full_run demo_builtins demo_config
      [FRequest (http_get ''/mcp'') ''2025-01-01T00:00:00.000Z'' ''c1'' 1,
       FactoryRejected 0 (JStr ''spawn chrome ENOENT'') (JStr ''Error: spawn chrome ENOENT'')]
      full_init) ! 0)) = [demo_error_frame] \<and>
   is_response demo_error_frame \<and>
   has_field demo_error_frame ''result'' \<noteq> has_field demo_error_frame ''error'' \<and>
   JObj [(''status'', JStr ''ok'')] \<noteq> JUndefined \<and>
   has_field (last (written (sendMCPResponse cors_res (JStr ''1'') (JObj [(''status'', JStr ''ok'')]))))
     ''result'' \<and>
   \<not> has_field (last (written (sendMCPResponse cors_res (JStr ''1'') (JObj [(''status'', JStr ''ok'')]))))
     ''error''"
  using response_result_xor_error [of demo_builtins demo_config
      "[FRequest (http_get ''/mcp'') ''2025-01-01T00:00:00.000Z'' ''c1'' 1,
        FactoryRejected 0 (JStr ''spawn chrome ENOENT'') (JStr ''Error: spawn chrome ENOENT'')]"
      "[]" cors_res JNull "[]" "JObj [(''status'', JStr ''ok'')]"]
  by (simp add: full_eval is_response_def has_field_def)

text \<open>
  A first client connects and its session is established; a request frame is
  then posted to \<^verbatim>\<open>/mcp\<close>. The post opens a second stream; each stream holds
  the initialized notification and nothing else, and that frame has no id.
\<close>

theorem request_frame_unanswered_counterexample:
  "full_streams (full_run demo_builtins demo_config
      [FRequest (http_get ''/mcp'') ''2025-01-01T00:00:00.000Z'' ''c1'' 1,
       FactoryResolved 0 demo_session ''2025-01-01T00:00:01.000Z'',
       ConnectResolved 0,
       FRequest (http_post ''/mcp'' demo_frame) ''2025-01-01T00:00:02.000Z'' ''c2'' 3,
       FactoryResolved 1 demo_session ''2025-01-01T00:00:03.000Z'',
       ConnectResolved 1] full_init) =
     [[initialized_frame], [initialized_frame]] \<and>
   field initialized_frame ''id'' = JUndefined"
  by (simp add: full_eval field_def)

theorem streams_carry_no_answer_witness:
  "full_streams (full_run demo_builtins demo_config
      [FRequest (http_post ''/mcp'' demo_frame) ''2025-01-01T00:00:00.000Z'' ''c1'' 1,
       FactoryRejected 0 (JStr ''spawn chrome ENOENT'') (JStr ''Error: spawn chrome ENOENT'')]
      full_init) = [[demo_error_frame]] \<and>
   is_null_error demo_error_frame \<and>
   simple_streams (simple_run demo_builtins
      [SRequest (http_post ''/mcp'' demo_frame) ''2025-01-01T00:00:00.000Z'' True] []) =
     [[initMessage, serverInfo, toolsList]] \<and>
   is_notification initMessage \<and> is_notification serverInfo \<and> is_notification toolsList \<and>
   req_url (http_post ''/mcp'' demo_frame) = ''/mcp'' \<and>
   simple_step demo_builtins
     (SRequest (http_post ''/mcp'' demo_frame) ''2025-01-01T00:00:00.000Z'' True) [] =
   simple_step demo_builtins
     (SRequest (http_post ''/mcp'' []) ''2025-01-01T00:00:00.000Z'' True) [] \<and>
   JStr ''1'' \<noteq> JUndefined \<and>
   field (last (written (sendMCPResponse cors_res (JStr ''1'') (JObj [(''status'', JStr ''ok'')]))))
     ''id'' = JStr ''1''"
  using streams_carry_no_answer [where B = demo_builtins and cfg = demo_config
      and evs = "[FRequest (http_post ''/mcp'' demo_frame) ''2025-01-01T00:00:00.000Z'' ''c1'' 1,
        FactoryRejected 0 (JStr ''spawn chrome ENOENT'') (JStr ''Error: spawn chrome ENOENT'')]"
      and sevs = "[SRequest (http_post ''/mcp'' demo_frame) ''2025-01-01T00:00:00.000Z'' True]"
      and req = "http_post ''/mcp'' demo_frame" and body = "[[]]"
      and now = "''2025-01-01T00:00:00.000Z''" and uuid = "''c1''" and uptime = 1
      and s = full_init and ok = True and cs = "[]" and res = cors_res and rid = "JStr ''1''"
      and result = "JObj [(''status'', JStr ''ok'')]"]
  by (simp add: full_eval simple_eval frame_eval wire_tools)





text \<open>
  A heartbeat write fails on a stream of the simple server: the timer is
  cleared and the response is not ended; later ticks write nothing.
\<close>

theorem heartbeat_failure_counterexample:
  "heartbeatInterval (simple_run demo_builtins
      [SRequest (http_get ''/mcp'') ''2025-01-01T00:00:00.000Z'' True,
       STick 0 ''2025-01-01T00:00:30.000Z'' False] [] ! 0) = None \<and>
   \<not> ended (sres (simple_run demo_builtins
      [SRequest (http_get ''/mcp'') ''2025-01-01T00:00:00.000Z'' True,
       STick 0 ''2025-01-01T00:00:30.000Z'' False] [] ! 0)) \<and>
   simple_streams (simple_run demo_builtins
      [SRequest (http_get ''/mcp'') ''2025-01-01T00:00:00.000Z'' True,
       STick 0 ''2025-01-01T00:00:30.000Z'' False,
       STick 0 ''2025-01-01T00:01:00.000Z'' True] []) = [[initMessage, serverInfo, toolsList]]"
  by (simp add: simple_eval)

text \<open>
  C5, as the code has it. In the simple server a tick of connection \<open>i\<close>'s
  live timer writes one heartbeat notification to that connection and changes
  no other; when the write fails, the tick only clears that connection's timer:
  the response is neither ended nor removed. A cleared timer does nothing. The
  \<^verbatim>\<open>close\<close> and \<^verbatim>\<open>error\<close> events of connection \<open>i\<close>'s request clear that
  connection's timer too, and change nothing else. The timer is started at the
  end of a handshake whose three writes succeed, with a period of 30000
  milliseconds; a handshake with a write that throws starts none. No other
  period occurs, and no response of a stream is ever ended. The full server
  writes no heartbeat.
\<close>

theorem heartbeat_timer_effect:
  "(i < length cs \<and> heartbeatInterval (cs ! i) \<noteq> None \<longrightarrow>
      simple_step B (STick i now True) cs =
        cs[i := (cs ! i)\<lparr>sres := (sres (cs ! i))\<lparr>written := written (sres (cs ! i)) @ [heartbeat now]\<rparr>\<rparr>] \<and>
      simple_step B (STick i now False) cs = cs[i := (cs ! i)\<lparr>heartbeatInterval := None\<rparr>]) \<and>
   (i < length cs \<and> heartbeatInterval (cs ! i) = None \<longrightarrow>
      simple_step B (STick i now ok) cs = cs) \<and>
   (i < length cs \<longrightarrow>
      simple_step B (SClose i) cs = cs[i := (cs ! i)\<lparr>heartbeatInterval := None\<rparr>] \<and>
      simple_step B (SError i) cs = cs[i := (cs ! i)\<lparr>heartbeatInterval := None\<rparr>]) \<and>
   (req_method req \<noteq> ''OPTIONS'' \<and> req_url req = ''/mcp'' \<longrightarrow>
      heartbeatInterval (last (simple_step B (SRequest req now True) cs)) = Some 30000 \<and>
      heartbeatInterval (last (simple_step B (SRequest req now False) cs)) = None \<and>
      (n < 3 \<longrightarrow> heartbeatInterval (last (simple_step B (SRequestCut req now n) cs)) = None)) \<and>
   (\<forall>c \<in> set (simple_run B sevs []).
      (heartbeatInterval c = None \<or> heartbeatInterval c = Some 30000) \<and> \<not> ended (sres c)) \<and>
   (\<forall>c \<in> set (conns (full_run B cfg evs full_init)). \<forall>f \<in> set (written (fres c)).
      \<not> is_method ''heartbeat'' f)"
proof (intro conjI ballI impI)
  fix c assume "c \<in> set (simple_run B sevs [])"
  from simple_frames [OF this]
  show "heartbeatInterval c = None \<or> heartbeatInterval c = Some 30000" "\<not> ended (sres c)"
    by (auto simp add: sconn_ok_def)
next
  fix c f assume "c \<in> set (conns (full_run B cfg evs full_init))" "f \<in> set (written (fres c))"
  with full_frames have "full_frame f" by (auto simp add: fconn_ok_def list_all_iff)
  then show "\<not> is_method ''heartbeat'' f"
    using null_error_not_method [of f "''heartbeat''"]
    by (auto simp add: full_frame_def is_method_def)
qed (auto simp add: heartbeat_tick_def clear_heartbeat_def res_write_def wire_heartbeat
       simple_request_def Let_def simple_mcp_def simple_mcp_cut_def)

theorem heartbeat_timer_effect_witness:
  "0 < length (simple_run demo_builtins
      [SRequest (http_get ''/mcp'') ''2025-01-01T00:00:00.000Z'' True] []) \<and>
   heartbeatInterval (simple_run demo_builtins
      [SRequest (http_get ''/mcp'') ''2025-01-01T00:00:00.000Z'' True] [] ! 0) = Some 30000 \<and>
   simple_streams (simple_step demo_builtins (STick 0 ''2025-01-01T00:00:30.000Z'' True)
     (simple_run demo_builtins
        [SRequest (http_get ''/mcp'') ''2025-01-01T00:00:00.000Z'' True] [])) =
     [[initMessage, serverInfo, toolsList, heartbeat ''2025-01-01T00:00:30.000Z'']] \<and>
   heartbeatInterval (simple_step demo_builtins (STick 0 ''2025-01-01T00:00:30.000Z'' False)
     (simple_run demo_builtins
        [SRequest (http_get ''/mcp'') ''2025-01-01T00:00:00.000Z'' True] []) ! 0) = None \<and>
   heartbeatInterval (simple_run demo_builtins
      [SRequest (http_get ''/mcp'') ''2025-01-01T00:00:00.000Z'' False] [] ! 0) = None \<and>
   simple_step demo_builtins (STick 0 ''2025-01-01T00:00:30.000Z'' True)
     (simple_run demo_builtins
        [SRequest (http_get ''/mcp'') ''2025-01-01T00:00:00.000Z'' False] []) =
     simple_run demo_builtins
        [SRequest (http_get ''/mcp'') ''2025-01-01T00:00:00.000Z'' False] [] \<and>
   heartbeatInterval (simple_step demo_builtins (SClose 0)
     (simple_run demo_builtins
        [SRequest (http_get ''/mcp'') ''2025-01-01T00:00:00.000Z'' True] []) ! 0) = None \<and>
   heartbeatInterval (simple_step demo_builtins (SError 0)
     (simple_run demo_builtins
        [SRequest (http_get ''/mcp'') ''2025-01-01T00:00:00.000Z'' True] []) ! 0) = None \<and>
   simple_streams (simple_step demo_builtins (SClose 0)
     (simple_run demo_builtins
        [SRequest (http_get ''/mcp'') ''2025-01-01T00:00:00.000Z'' True] [])) =
     [[initMessage, serverInfo, toolsList]] \<and>
   req_method (http_get ''/mcp'') \<noteq> ''OPTIONS'' \<and> req_url (http_get ''/mcp'') = ''/mcp'' \<and>
   heartbeatInterval (last (simple_step demo_builtins
      (SRequestCut (http_get ''/mcp'') ''2025-01-01T00:00:00.000Z'' 2) [])) = None \<and>
   \<not> ended (sres (simple_run demo_builtins
      [SRequest (http_get ''/mcp'') ''2025-01-01T00:00:00.000Z'' True,
       STick 0 ''2025-01-01T00:00:30.000Z'' False] [] ! 0)) \<and>
   \<not> is_method ''heartbeat'' (hd (written (fres (conns (full_run demo_builtins demo_config
      [FRequest (http_get ''/mcp'') ''2025-01-01T00:00:00.000Z'' ''c1'' 1,
       FactoryResolved 0 (Connection None) ''2025-01-01T00:00:01.000Z''] full_init) ! 0))))"
  using
    heartbeat_timer_effect [where i = 0 and B = demo_builtins and cfg = demo_config
      and cs = "simple_run demo_builtins
        [SRequest (http_get ''/mcp'') ''2025-01-01T00:00:00.000Z'' True] []"
      and now = "''2025-01-01T00:00:30.000Z''" and ok = True and req = "http_get ''/mcp''"
      and n = 2
      and sevs = "[SRequest (http_get ''/mcp'') ''2025-01-01T00:00:00.000Z'' True,
        STick 0 ''2025-01-01T00:00:30.000Z'' False]"
      and evs = "[FRequest (http_get ''/mcp'') ''2025-01-01T00:00:00.000Z'' ''c1'' 1,
        FactoryResolved 0 (Connection None) ''2025-01-01T00:00:01.000Z'']"]
    heartbeat_timer_effect [where i = 0 and B = demo_builtins and cfg = demo_config
      and cs = "simple_run demo_builtins
        [SRequest (http_get ''/mcp'') ''2025-01-01T00:00:00.000Z'' False] []"
      and now = "''2025-01-01T00:00:30.000Z''" and ok = True and req = "http_get ''/mcp''"
      and n = 2 and sevs = "[]" and evs = "[]"]
    heartbeat_timer_effect [where i = 0 and B = demo_builtins and cfg = demo_config
      and cs = "[]" and now = "''2025-01-01T00:00:00.000Z''" and ok = True
      and req = "http_get ''/mcp''" and n = 2 and sevs = "[]" and evs = "[]"]
  by (simp add: full_eval simple_eval frame_eval wire_tools)

section \<open>Registration and removal of clients\<close>

text \<open>
  After any sequence of events, every entry of the Map belongs to a connection
  whose handler got its session from the factory; a handler that still awaits
  the factory, or whose factory failed, has none.
\<close>

lemma registry_entries_have_session:
  "\<forall>(k, e) \<in> set (connectedClients (full_run B cfg evs full_init)).
      entry_res e < length (conns (full_run B cfg evs full_init)) \<and>
      clientId (conns (full_run B cfg evs full_init) ! entry_res e) = k \<and>
      mcpServer (conns (full_run B cfg evs full_init) ! entry_res e) = Some (entry_mcpServer e)"
  using full_inv_run [OF full_inv_init, of B cfg evs]
  by (simp add: full_inv_def registry_ok_def)

lemma factory_pending_not_registered:
  assumes "(k, e) \<in> set (connectedClients (full_run B cfg evs full_init))"
  shows "phase (conns (full_run B cfg evs full_init) ! entry_res e) \<noteq> AwaitFactory"
proof -
  let ?s = "full_run B cfg evs full_init"
  from registry_entries_have_session [of B cfg evs] assms
  have e: "entry_res e < length (conns ?s)" "mcpServer (conns ?s ! entry_res e) \<noteq> None"
    by auto
  from full_frames [of "conns ?s ! entry_res e" B cfg evs] e(1)
  have "fconn_ok (conns ?s ! entry_res e)" by simp
  with e(2) show ?thesis by (auto simp add: fconn_ok_def)
qed

text \<open>
  The \<^verbatim>\<open>close\<close> event removes the entry when the listener is installed, and is
  lost otherwise; it is not emitted again.
\<close>

lemma close_with_listener_removes:
  assumes "\<not> crashed s" "i < length (conns s)" "closeListener (conns s ! i)"
    "\<not> closed (conns s ! i)"
  shows "clientId (conns s ! i) \<notin> fst ` set (connectedClients (full_step B cfg (FClose i) s))"
  using assms by (simp add: on_close_def Let_def AList.delete_notin_dom)

lemma close_without_listener_keeps:
  assumes "i < length (conns s)" "\<not> closeListener (conns s ! i)"
  shows "connectedClients (full_step B cfg (FClose i) s) = connectedClients s"
  using assms by (simp add: on_close_def Let_def)

lemma close_is_emitted_once:
  assumes "i < length (conns s)" "closed (conns s ! i)"
  shows "full_step B cfg (FClose i) s = s"
  using assms by (simp add: on_close_def Let_def)

text \<open>
  C10, at the input where the code departs from it. The client disconnects
  while the handler awaits the factory: no \<^verbatim>\<open>close\<close> listener is installed yet and
  the event is lost. The factory then succeeds, the handler registers the
  client and completes the handshake; the entry of the closed connection stays
  in the Map and \<^verbatim>\<open>/health\<close> counts it.
\<close>

theorem early_close_leaves_entry:
  "map fst (connectedClients (full_run demo_builtins demo_config
      [FRequest (http_get ''/mcp'') ''2025-01-01T00:00:00.000Z'' ''c1'' 1,
       FClose 0,
       FactoryResolved 0 demo_session ''2025-01-01T00:00:05.000Z'',
       ConnectResolved 0,
       FClose 0] full_init)) = [''c1''] \<and>
   closed (conns (full_run demo_builtins demo_config
      [FRequest (http_get ''/mcp'') ''2025-01-01T00:00:00.000Z'' ''c1'' 1,
       FClose 0,
       FactoryResolved 0 demo_session ''2025-01-01T00:00:05.000Z'',
       ConnectResolved 0,
       FClose 0] full_init) ! 0) \<and>
   written (snd (full_request demo_builtins demo_config (http_get ''/health'')
      ''2025-01-01T00:00:09.000Z'' ''c2'' 9
      (full_run demo_builtins demo_config
        [FRequest (http_get ''/mcp'') ''2025-01-01T00:00:00.000Z'' ''c1'' 1,
         FClose 0,
         FactoryResolved 0 demo_session ''2025-01-01T00:00:05.000Z'',
         ConnectResolved 0,
         FClose 0] full_init))) =
     [JObj [(''status'', JStr ''healthy''), (''timestamp'', JStr ''2025-01-01T00:00:09.000Z''),
            (''service'', JStr ''playwright-mcp-server''), (''clients'', JNum 1)]]"
  by (simp add: full_eval)

end
